theory Spec2Isabelle
  imports Main
begin

section \<open>StarBoard: the multi-tier data synchronisation layer\<close>

text \<open>
  A shallow embedding of the storage layer of \<^verbatim>\<open>script.js\<close> (the Supabase edition of
  class \<^verbatim>\<open>StarBoard\<close>) and of the two serverless handlers
  \<^verbatim>\<open>netlify/functions/supabase-starboard.js\<close> and \<^verbatim>\<open>netlify/functions/starboard.js\<close>.

  Conventions of the embedding:
  \<^item> a JavaScript value is a JSON value or one of the three numbers JSON has no text
    for, \<^verbatim>\<open>NaN\<close>, \<^verbatim>\<open>Infinity\<close> and \<^verbatim>\<open>-Infinity\<close> (\<open>jsval\<close>); \<^verbatim>\<open>undefined\<close> only occurs
    as the result of reading a property and is the \<open>None\<close> of \<open>jsval option\<close>;
  \<^item> the finite numbers are mathematical integers (they agree with IEEE doubles on the
    safe integers, which is where star counts and backup counters live);
  \<^item> an object is the list of its own properties in enumeration order; a property read
    is a read of an own property (no key of a document shadows or names a member of a
    prototype, except \<^verbatim>\<open>hasOwnProperty\<close> and \<^verbatim>\<open>toString\<close>, which are modelled where
    the code calls them);
  \<^item> a thrown exception is the \<open>Inl\<close> of a sum type;
  \<^item> an \<^verbatim>\<open>async\<close> function is run to completion: the interleaving of two pending
    operations is not modelled.
\<close>

subsection \<open>JSON values\<close>

datatype jsval =
    JNull
  | JBool bool
  | JNum int
  | JNaN
  | JInfinity
  | JNegInfinity
  | JStr string
  | JArr "jsval list"
  | JObj "(string \<times> jsval) list"

datatype error = TypeError | DbError | StorageError | NonNumericStars

text \<open>Truthiness (\<^verbatim>\<open>!x\<close> is its negation); \<^verbatim>\<open>undefined\<close> is falsy.\<close>

fun truthy :: "jsval \<Rightarrow> bool" where
  "truthy JNull = False"
| "truthy (JBool b) = b"
| "truthy (JNum n) = (n \<noteq> 0)"
| "truthy JNaN = False"
| "truthy JInfinity = True"
| "truthy JNegInfinity = True"
| "truthy (JStr s) = (s \<noteq> [])"
| "truthy (JArr xs) = True"
| "truthy (JObj kv) = True"

fun truthy_opt :: "jsval option \<Rightarrow> bool" where
  "truthy_opt None = False"
| "truthy_opt (Some v) = truthy v"

text \<open>\<^verbatim>\<open>typeof x === 'object'\<close>: true of objects, of arrays and of \<^verbatim>\<open>null\<close>.\<close>

fun typeof_object :: "jsval \<Rightarrow> bool" where
  "typeof_object JNull = True"
| "typeof_object (JArr xs) = True"
| "typeof_object (JObj kv) = True"
| "typeof_object _ = False"

fun typeof_object_opt :: "jsval option \<Rightarrow> bool" where
  "typeof_object_opt None = False"
| "typeof_object_opt (Some v) = typeof_object v"

fun typeof_string_opt :: "jsval option \<Rightarrow> bool" where
  "typeof_string_opt (Some (JStr s)) = True"
| "typeof_string_opt _ = False"

text \<open>\<^verbatim>\<open>typeof x === 'number'\<close>: true of \<^verbatim>\<open>NaN\<close> and of the infinities as well.\<close>

fun typeof_number_opt :: "jsval option \<Rightarrow> bool" where
  "typeof_number_opt (Some (JNum n)) = True"
| "typeof_number_opt (Some JNaN) = True"
| "typeof_number_opt (Some JInfinity) = True"
| "typeof_number_opt (Some JNegInfinity) = True"
| "typeof_number_opt _ = False"

text \<open>
  \<^verbatim>\<open>x < 0\<close> for a number \<^verbatim>\<open>x\<close>: false of \<^verbatim>\<open>NaN\<close>, as every comparison with \<^verbatim>\<open>NaN\<close>
  is. The code applies it to numbers only.
\<close>

fun less_than_zero :: "jsval option \<Rightarrow> bool" where
  "less_than_zero (Some (JNum n)) = (n < 0)"
| "less_than_zero (Some JNegInfinity) = True"
| "less_than_zero _ = False"

subsection \<open>Decimal rendering of numbers\<close>

definition digit_char :: "nat \<Rightarrow> char" where
  "digit_char d = ''0123456789'' ! d"

fun dec :: "nat \<Rightarrow> string" where
  "dec n = (if n < 10 then [digit_char n] else dec (n div 10) @ [digit_char (n mod 10)])"

declare dec.simps [simp del]

definition dec_int :: "int \<Rightarrow> string" where
  "dec_int i = (if i < 0 then CHR ''-'' # dec (nat (- i)) else dec (nat i))"

subsection \<open>Own properties\<close>

text \<open>\<^verbatim>\<open>Object.entries(x)\<close> for an array or an object.\<close>

definition arr_entries :: "jsval list \<Rightarrow> (string \<times> jsval) list" where
  "arr_entries xs = zip (map dec [0..<length xs]) xs"

fun entries :: "jsval \<Rightarrow> (string \<times> jsval) list" where
  "entries (JObj kv) = kv"
| "entries (JArr xs) = arr_entries xs"
| "entries (JStr s) = arr_entries (map (\<lambda>c. JStr [c]) s)"
| "entries _ = []"

text \<open>
  \<^verbatim>\<open>x[k]\<close> and \<^verbatim>\<open>x.k\<close>. Reading a property of \<^verbatim>\<open>null\<close> throws a TypeError; reading
  one of a boolean or a number gives \<^verbatim>\<open>undefined\<close>; arrays and strings have their index
  properties and \<^verbatim>\<open>length\<close>.
\<close>

fun get_prop :: "jsval \<Rightarrow> string \<Rightarrow> error + jsval option" where
  "get_prop JNull k = Inl TypeError"
| "get_prop (JBool b) k = Inr None"
| "get_prop (JNum n) k = Inr None"
| "get_prop JNaN k = Inr None"
| "get_prop JInfinity k = Inr None"
| "get_prop JNegInfinity k = Inr None"
| "get_prop (JStr s) k =
     Inr (if k = ''length'' then Some (JNum (int (length s))) else map_of (entries (JStr s)) k)"
| "get_prop (JArr xs) k =
     Inr (if k = ''length'' then Some (JNum (int (length xs))) else map_of (arr_entries xs) k)"
| "get_prop (JObj kv) k = Inr (map_of kv k)"

text \<open>Reading a property of a value that may be \<^verbatim>\<open>undefined\<close>: that throws as well.\<close>

fun get_prop_opt :: "jsval option \<Rightarrow> string \<Rightarrow> error + jsval option" where
  "get_prop_opt None k = Inl TypeError"
| "get_prop_opt (Some v) k = get_prop v k"

text \<open>
  \<^verbatim>\<open>data.hasOwnProperty(prop)\<close>. The method is found on the prototype unless the object has
  an own property of that name, whose value (a JSON value) is then called and is not a
  function.
\<close>

fun hasOwnProperty :: "jsval \<Rightarrow> string \<Rightarrow> error + bool" where
  "hasOwnProperty (JObj kv) prop =
     (if map_of kv ''hasOwnProperty'' \<noteq> None then Inl TypeError
      else Inr (map_of kv prop \<noteq> None))"
| "hasOwnProperty JNull prop = Inl TypeError"
| "hasOwnProperty v prop = (case get_prop v prop of Inl e \<Rightarrow> Inl e | Inr r \<Rightarrow> Inr (r \<noteq> None))"

subsection \<open>The schema validator\<close>

text \<open>
  \<^verbatim>\<open>validateDataStructure(data)\<close>. Every \<^verbatim>\<open>return false\<close> of the source is an
  \<open>Inr False\<close>, the final \<^verbatim>\<open>return true\<close> is \<open>Inr True\<close>, and a TypeError raised on the
  way (the validator has no handler of its own) is an \<open>Inl\<close>.
\<close>

text \<open>The condition of the innermost \<^verbatim>\<open>if\<close>, negated: the student entry is accepted.\<close>

definition student_ok :: "jsval \<Rightarrow> error + bool" where
  "student_ok student =
     (case get_prop student ''name'' of
        Inl e \<Rightarrow> Inl e
      | Inr name \<Rightarrow>
          if \<not> truthy_opt name then Inr False
          else (case get_prop student ''stars'' of
                  Inl e \<Rightarrow> Inl e
                | Inr stars \<Rightarrow>
                    if \<not> typeof_number_opt stars \<or> less_than_zero stars then Inr False
                    else Inr True))"

fun validate_students :: "(string \<times> jsval) list \<Rightarrow> error + bool" where
  "validate_students [] = Inr True"
| "validate_students ((studentId, student) # rest) =
     (case student_ok student of
        Inl e \<Rightarrow> Inl e
      | Inr False \<Rightarrow> Inr False
      | Inr True \<Rightarrow> validate_students rest)"

definition class_ok :: "jsval \<Rightarrow> error + bool" where
  "class_ok classData =
     (case get_prop classData ''students'' of
        Inl e \<Rightarrow> Inl e
      | Inr students \<Rightarrow>
          if \<not> truthy_opt students \<or> \<not> typeof_object_opt students then Inr False
          else validate_students (case students of None \<Rightarrow> [] | Some sv \<Rightarrow> entries sv))"

fun validate_classes :: "(string \<times> jsval) list \<Rightarrow> error + bool" where
  "validate_classes [] = Inr True"
| "validate_classes ((className, classData) # rest) =
     (case class_ok classData of
        Inl e \<Rightarrow> Inl e
      | Inr False \<Rightarrow> Inr False
      | Inr True \<Rightarrow> validate_classes rest)"

text \<open>
  The teachers loop. \<^verbatim>\<open>typeof username !== 'string'\<close> is false of every key that
  \<^verbatim>\<open>Object.entries\<close> produces, so the password alone decides.
\<close>

fun validate_teachers :: "(string \<times> jsval) list \<Rightarrow> error + bool" where
  "validate_teachers [] = Inr True"
| "validate_teachers ((username, password) # rest) =
     (if \<not> typeof_string_opt (Some password) then Inr False else validate_teachers rest)"

text \<open>The loop over \<^verbatim>\<open>requiredProps\<close>.\<close>

fun validate_required :: "jsval \<Rightarrow> string list \<Rightarrow> error + bool" where
  "validate_required data [] = Inr True"
| "validate_required data (prop # props) =
     (case hasOwnProperty data prop of
        Inl e \<Rightarrow> Inl e
      | Inr False \<Rightarrow> Inr False
      | Inr True \<Rightarrow>
          (case get_prop data prop of
             Inl e \<Rightarrow> Inl e
           | Inr v \<Rightarrow> if \<not> typeof_object_opt v then Inr False else validate_required data props))"

definition requiredProps :: "string list" where
  "requiredProps = [''classes'', ''teachers'', ''settings'']"

definition validateDataStructure :: "jsval \<Rightarrow> error + bool" where
  "validateDataStructure data =
     (if \<not> truthy data \<or> \<not> typeof_object data then Inr False
      else case validate_required data requiredProps of
        Inl e \<Rightarrow> Inl e
      | Inr False \<Rightarrow> Inr False
      | Inr True \<Rightarrow>
          (case get_prop data ''classes'' of
             Inl e \<Rightarrow> Inl e
           | Inr classes \<Rightarrow>
               (case (if truthy_opt classes
                      then validate_classes (case classes of None \<Rightarrow> [] | Some c \<Rightarrow> entries c)
                      else Inr True) of
                  Inl e \<Rightarrow> Inl e
                | Inr False \<Rightarrow> Inr False
                | Inr True \<Rightarrow>
                    (case get_prop data ''teachers'' of
                       Inl e \<Rightarrow> Inl e
                     | Inr teachers \<Rightarrow>
                         if truthy_opt teachers
                         then validate_teachers (case teachers of None \<Rightarrow> [] | Some t \<Rightarrow> entries t)
                         else Inr True))))"

subsection \<open>Assignment and the \<^verbatim>\<open>+\<close> operator\<close>

text \<open>
  \<^verbatim>\<open>obj.k = v\<close> on an object: an existing own property keeps its place, a new one is
  added last. The code only assigns to objects; other values are left as they are.
\<close>

fun assign_own :: "string \<Rightarrow> jsval \<Rightarrow> (string \<times> jsval) list \<Rightarrow> (string \<times> jsval) list" where
  "assign_own k v [] = [(k, v)]"
| "assign_own k v ((k', v') # kv) =
     (if k' = k then (k, v) # kv else (k', v') # assign_own k v kv)"

fun set_prop :: "jsval \<Rightarrow> string \<Rightarrow> jsval \<Rightarrow> jsval" where
  "set_prop (JObj kv) k v = JObj (assign_own k v kv)"
| "set_prop other k v = other"

text \<open>
  The object found under an own property is changed in place. In a tree of values that
  is a change of the tree at that property.
\<close>

fun modify_own :: "string \<Rightarrow> (jsval \<Rightarrow> jsval) \<Rightarrow> (string \<times> jsval) list \<Rightarrow> (string \<times> jsval) list" where
  "modify_own k f [] = []"
| "modify_own k f ((k', v') # kv) =
     (if k' = k then (k', f v') # kv else (k', v') # modify_own k f kv)"

fun modify_prop :: "jsval \<Rightarrow> string \<Rightarrow> (jsval \<Rightarrow> jsval) \<Rightarrow> jsval" where
  "modify_prop (JObj kv) k f = JObj (modify_own k f kv)"
| "modify_prop (JArr xs) k f = JArr (map snd (modify_own k f (arr_entries xs)))"
| "modify_prop other k f = other"

text \<open>
  \<^verbatim>\<open>String(x)\<close> as the \<^verbatim>\<open>+\<close> operator applies it. A plain object prints as
  \<^verbatim>\<open>[object Object]\<close>; one with an own property \<^verbatim>\<open>toString\<close> (a JSON value, so not
  callable) cannot be converted and a TypeError is thrown. An array is the join of its
  elements, \<^verbatim>\<open>null\<close> elements printing as the empty string.
\<close>

fun join_strings :: "(error + string) list \<Rightarrow> error + string" where
  "join_strings [] = Inr []"
| "join_strings [x] = x"
| "join_strings (x # y # ys) =
     (case x of
        Inl e \<Rightarrow> Inl e
      | Inr a \<Rightarrow> (case join_strings (y # ys) of Inl e \<Rightarrow> Inl e | Inr b \<Rightarrow> Inr (a @ '','' @ b)))"

fun js_to_string :: "jsval \<Rightarrow> error + string" where
  "js_to_string JNull = Inr ''null''"
| "js_to_string (JBool b) = Inr (if b then ''true'' else ''false'')"
| "js_to_string (JNum n) = Inr (dec_int n)"
| "js_to_string JNaN = Inr ''NaN''"
| "js_to_string JInfinity = Inr ''Infinity''"
| "js_to_string JNegInfinity = Inr ''-Infinity''"
| "js_to_string (JStr s) = Inr s"
| "js_to_string (JObj kv) =
     (if map_of kv ''toString'' \<noteq> None then Inl TypeError else Inr ''[object Object]'')"
| "js_to_string (JArr xs) =
     join_strings (map (\<lambda>x. if x = JNull then Inr [] else js_to_string x) xs)"

text \<open>\<^verbatim>\<open>x + m\<close> for a number \<^verbatim>\<open>m\<close>.\<close>

fun js_plus_num :: "jsval \<Rightarrow> int \<Rightarrow> error + jsval" where
  "js_plus_num (JNum n) m = Inr (JNum (n + m))"
| "js_plus_num JNaN m = Inr JNaN"
| "js_plus_num JInfinity m = Inr JInfinity"
| "js_plus_num JNegInfinity m = Inr JNegInfinity"
| "js_plus_num (JBool b) m = Inr (JNum ((if b then 1 else 0) + m))"
| "js_plus_num JNull m = Inr (JNum m)"
| "js_plus_num (JStr s) m = Inr (JStr (s @ dec_int m))"
| "js_plus_num v m =
     (case js_to_string v of Inl e \<Rightarrow> Inl e | Inr t \<Rightarrow> Inr (JStr (t @ dec_int m)))"

subsection \<open>The JSON copy\<close>

text \<open>
  \<^verbatim>\<open>JSON.parse(JSON.stringify(x))\<close>: \<^verbatim>\<open>JSON.stringify\<close> writes \<^verbatim>\<open>null\<close> for \<^verbatim>\<open>NaN\<close> and for
  the infinities, wherever they stand; every other value comes back as it was. The
  same function gives what a receiver parses out of a text that \<^verbatim>\<open>JSON.stringify\<close> has
  produced.
\<close>

fun json_clone :: "jsval \<Rightarrow> jsval" where
  "json_clone JNaN = JNull"
| "json_clone JInfinity = JNull"
| "json_clone JNegInfinity = JNull"
| "json_clone (JArr xs) = JArr (map json_clone xs)"
| "json_clone (JObj kv) = JObj (map (\<lambda>p. (fst p, json_clone (snd p))) kv)"
| "json_clone v = v"

subsection \<open>The default document\<close>

text \<open>
  \<^verbatim>\<open>createDefaultData()\<close>, the same in the client and in both handlers; \<open>now\<close> is
  \<^verbatim>\<open>new Date().toISOString()\<close>.
\<close>

definition createDefaultData :: "string \<Rightarrow> jsval" where
  "createDefaultData now =
     JObj [(''classes'', JObj []),
           (''teachers'', JObj [(''teacher'', JStr ''starboard'')]),
           (''settings'', JObj [(''theme'', JStr ''dark''),
                                (''soundEnabled'', JBool True),
                                (''autoBackup'', JBool True)]),
           (''metadata'', JObj [(''version'', JStr ''2.0''),
                                (''created'', JStr now),
                                (''lastModified'', JStr now),
                                (''backupCount'', JNum 0)])]"

subsection \<open>The state: the client's memory and the four storage tiers\<close>

text \<open>
  A string handed to \<^verbatim>\<open>JSON.parse\<close> is kept as what the parser makes of it.
\<close>

datatype json_text = Unparseable | Parses jsval

datatype endpoint = Supabase | Netlify

datatype http_method = GET | PUT | OPTIONS | OtherMethod

text \<open>
  \<^item> \<open>heap\<close>, \<open>next_ref\<close>: the document objects of the client, by reference;
  \<^item> \<open>memoryCache\<close>: \<^verbatim>\<open>this.memoryCache\<close>, a reference or \<^verbatim>\<open>null\<close>;
  \<^item> \<open>idb\<close>: the record \<^verbatim>\<open>'data'\<close> of the IndexedDB store \<^verbatim>\<open>'kv'\<close>; \<open>idb_up\<close>: its
    requests succeed (otherwise \<^verbatim>\<open>onerror\<close> fires and the promise is rejected);
  \<^item> \<open>ls\<close>: the entry \<^verbatim>\<open>'starboard_data'\<close> of localStorage; \<open>ls_writable\<close>:
    \<^verbatim>\<open>setItem\<close> does not throw;
  \<^item> \<open>online\<close>: \<^verbatim>\<open>fetch\<close> reaches the functions (otherwise it rejects);
  \<^item> \<open>sb_configured\<close>, \<open>sb_error\<close>, \<open>sb_row\<close>: the Supabase function's environment
    variables are set, its queries fail, and the \<^verbatim>\<open>data\<close> column of row \<^verbatim>\<open>'main'\<close>;
  \<^item> \<open>blob_error\<close>, \<open>blob\<close>: the blob store throws, and its entry \<^verbatim>\<open>'data.json'\<close>;
  \<^item> \<open>requests\<close>: the requests the client has issued, oldest first.
\<close>

record state =
  heap :: "nat \<Rightarrow> jsval"
  next_ref :: nat
  memoryCache :: "nat option"
  idb_up :: bool
  idb :: "jsval option"
  ls_writable :: bool
  ls :: "json_text option"
  online :: bool
  sb_configured :: bool
  sb_error :: bool
  sb_row :: "jsval option"
  blob_error :: bool
  blob :: "jsval option"
  requests :: "(endpoint \<times> http_method) list"

text \<open>A new object with the given content.\<close>

definition alloc :: "jsval \<Rightarrow> state \<Rightarrow> nat \<times> state" where
  "alloc v s = (next_ref s, s\<lparr>heap := (heap s)(next_ref s := v), next_ref := Suc (next_ref s)\<rparr>)"

subsection \<open>The serverless handlers\<close>

text \<open>
  The check both \<^verbatim>\<open>PUT\<close> branches make, negated:
  \<^verbatim>\<open>!parsed || typeof parsed !== 'object' || !parsed.classes\<close>.
\<close>

definition lightweight_ok :: "jsval \<Rightarrow> bool" where
  "lightweight_ok parsed =
     (truthy parsed \<and> typeof_object parsed \<and>
      (case get_prop parsed ''classes'' of Inl e \<Rightarrow> False | Inr c \<Rightarrow> truthy_opt c))"

definition error_body :: "string \<Rightarrow> jsval" where
  "error_body msg = JObj [(''error'', JStr msg)]"

text \<open>\<^verbatim>\<open>event.body || '{}'\<close>, parsed.\<close>

fun body_text :: "json_text option \<Rightarrow> json_text" where
  "body_text None = Parses (JObj [])"
| "body_text (Some t) = t"

text \<open>
  A response is its status and what the client parses out of its body, which the helper
  \<^verbatim>\<open>json(statusCode, body)\<close> of both functions has written with \<^verbatim>\<open>JSON.stringify\<close>. The
  text of \<^verbatim>\<open>err.message\<close> in a 500 response is not modelled. Both stores keep their
  record as JSON (\<^verbatim>\<open>setJSON\<close>, a \<^verbatim>\<open>JSONB\<close> column).
\<close>

definition json :: "nat \<Rightarrow> jsval \<Rightarrow> nat \<times> jsval" where
  "json statusCode body = (statusCode, json_clone body)"

definition supabase_handler ::
  "http_method \<Rightarrow> json_text option \<Rightarrow> string \<Rightarrow> state \<Rightarrow> (nat \<times> jsval) \<times> state" where
  "supabase_handler method body now s =
     (if \<not> sb_configured s then (json 500 (error_body ''Supabase not configured''), s)
      else case method of
        GET \<Rightarrow>
          if sb_error s then (json 500 (error_body ''error''), s)
          else (case sb_row s of
                  None \<Rightarrow>
                    (json 200 (createDefaultData now),
                     s\<lparr>sb_row := Some (json_clone (createDefaultData now))\<rparr>)
                | Some d \<Rightarrow> (json 200 (if truthy d then d else createDefaultData now), s))
      | PUT \<Rightarrow>
          (case body_text body of
             Unparseable \<Rightarrow> (json 500 (error_body ''error''), s)
           | Parses parsed \<Rightarrow>
               if \<not> lightweight_ok parsed then (json 400 (error_body ''Invalid data structure''), s)
               else if sb_error s then (json 500 (error_body ''error''), s)
               else (json 200 (JObj [(''success'', JBool True)]),
                     s\<lparr>sb_row := Some (json_clone parsed)\<rparr>))
      | OPTIONS \<Rightarrow> (json 200 (JObj []), s)
      | OtherMethod \<Rightarrow> (json 405 (error_body ''Method not allowed''), s))"

definition netlify_handler ::
  "http_method \<Rightarrow> json_text option \<Rightarrow> string \<Rightarrow> state \<Rightarrow> (nat \<times> jsval) \<times> state" where
  "netlify_handler method body now s =
     (case method of
        GET \<Rightarrow>
          if blob_error s then (json 500 (error_body ''error''), s)
          else (case blob s of
                  None \<Rightarrow> (json 200 (createDefaultData now), s)
                | Some value \<Rightarrow> (json 200 (if truthy value then value else createDefaultData now), s))
      | PUT \<Rightarrow>
          (case body_text body of
             Unparseable \<Rightarrow> (json 500 (error_body ''error''), s)
           | Parses parsed \<Rightarrow>
               if \<not> lightweight_ok parsed then (json 400 (error_body ''Invalid data''), s)
               else if blob_error s then (json 500 (error_body ''error''), s)
               else (json 200 (JObj [(''ok'', JBool True)]), s\<lparr>blob := Some (json_clone parsed)\<rparr>))
      | _ \<Rightarrow> (json 405 (error_body ''Method not allowed''), s))"

subsection \<open>The remote tier clients\<close>

text \<open>
  \<^verbatim>\<open>fetch\<close>: the request is recorded; offline it rejects (\<open>None\<close>), otherwise the function
  behind the endpoint answers.
\<close>

definition fetch ::
  "endpoint \<Rightarrow> http_method \<Rightarrow> json_text option \<Rightarrow> string \<Rightarrow> state \<Rightarrow> (nat \<times> jsval) option \<times> state" where
  "fetch ep method body now s =
     (let s1 = s\<lparr>requests := requests s @ [(ep, method)]\<rparr>
      in if \<not> online s1 then (None, s1)
         else (case (case ep of
                       Supabase \<Rightarrow> supabase_handler method body now s1
                     | Netlify \<Rightarrow> netlify_handler method body now s1) of
                 (res, s2) \<Rightarrow> (Some res, s2)))"

text \<open>\<^verbatim>\<open>res.ok\<close>.\<close>

definition res_ok :: "nat \<times> jsval \<Rightarrow> bool" where
  "res_ok res = (200 \<le> fst res \<and> fst res < 300)"

text \<open>
  \<^verbatim>\<open>tryLoadFromSupabase()\<close> and \<^verbatim>\<open>tryLoadFromNetlify()\<close> have the same body up to the
  endpoint: \<^verbatim>\<open>null\<close> when \<^verbatim>\<open>fetch\<close> rejects, when the response is not ok, and when the
  validator rejects the body or throws.
\<close>

definition tryLoadFrom :: "endpoint \<Rightarrow> string \<Rightarrow> state \<Rightarrow> jsval option \<times> state" where
  "tryLoadFrom ep now s =
     (case fetch ep GET None now s of
        (None, s1) \<Rightarrow> (None, s1)
      | (Some res, s1) \<Rightarrow>
          if \<not> res_ok res then (None, s1)
          else (case validateDataStructure (snd res) of
                  Inr True \<Rightarrow> (Some (snd res), s1)
                | _ \<Rightarrow> (None, s1)))"

definition tryLoadFromSupabase :: "string \<Rightarrow> state \<Rightarrow> jsval option \<times> state" where
  "tryLoadFromSupabase = tryLoadFrom Supabase"

definition tryLoadFromNetlify :: "string \<Rightarrow> state \<Rightarrow> jsval option \<times> state" where
  "tryLoadFromNetlify = tryLoadFrom Netlify"

text \<open>
  \<^verbatim>\<open>trySaveToSupabase(data)\<close> and \<^verbatim>\<open>trySaveToNetlify(data)\<close>: \<^verbatim>\<open>res.ok\<close>, and
  \<^verbatim>\<open>false\<close> when \<^verbatim>\<open>fetch\<close> rejects. The body is \<^verbatim>\<open>JSON.stringify(data)\<close>.
\<close>

definition trySaveTo :: "endpoint \<Rightarrow> jsval \<Rightarrow> string \<Rightarrow> state \<Rightarrow> bool \<times> state" where
  "trySaveTo ep data now s =
     (case fetch ep PUT (Some (Parses (json_clone data))) now s of
        (None, s1) \<Rightarrow> (False, s1)
      | (Some res, s1) \<Rightarrow> (res_ok res, s1))"

definition trySaveToSupabase :: "jsval \<Rightarrow> string \<Rightarrow> state \<Rightarrow> bool \<times> state" where
  "trySaveToSupabase = trySaveTo Supabase"

definition trySaveToNetlify :: "jsval \<Rightarrow> string \<Rightarrow> state \<Rightarrow> bool \<times> state" where
  "trySaveToNetlify = trySaveTo Netlify"

subsection \<open>The local durable store and the local fast cache\<close>

definition dbInit :: "state \<Rightarrow> error + unit" where
  "dbInit s = (if idb_up s then Inr () else Inl DbError)"

text \<open>\<^verbatim>\<open>dbLoad()\<close> resolves \<^verbatim>\<open>getReq.result || null\<close>.\<close>

definition dbLoad :: "state \<Rightarrow> error + jsval option" where
  "dbLoad s =
     (if idb_up s then Inr (if truthy_opt (idb s) then idb s else None) else Inl DbError)"

text \<open>\<^verbatim>\<open>store.put(data, 'data')\<close> keeps a structured clone, which has every number as it is.\<close>

definition dbSave :: "jsval \<Rightarrow> state \<Rightarrow> error + state" where
  "dbSave data s = (if idb_up s then Inr (s\<lparr>idb := Some data\<rparr>) else Inl DbError)"

text \<open>\<^verbatim>\<open>localStorage.setItem('starboard_data', JSON.stringify(data, null, 2))\<close>.\<close>

definition ls_setItem :: "jsval \<Rightarrow> state \<Rightarrow> error + state" where
  "ls_setItem data s =
     (if ls_writable s then Inr (s\<lparr>ls := Some (Parses (json_clone data))\<rparr>)
      else Inl StorageError)"

text \<open>
  \<^verbatim>\<open>getDataFromLocalStorage()\<close>: the default document when there is no entry, when the
  entry does not parse, and when the validator rejects it or throws.
\<close>

definition getDataFromLocalStorage :: "string \<Rightarrow> state \<Rightarrow> jsval" where
  "getDataFromLocalStorage now s =
     (case ls s of
        None \<Rightarrow> createDefaultData now
      | Some Unparseable \<Rightarrow> createDefaultData now
      | Some (Parses parsedData) \<Rightarrow>
          (case validateDataStructure parsedData of
             Inr True \<Rightarrow> parsedData
           | _ \<Rightarrow> createDefaultData now))"

subsection \<open>The sync orchestrator\<close>

text \<open>
  The body of \<^verbatim>\<open>if (supabaseData) { ... return; }\<close> and of its twin for the legacy tier.
  \<open>True\<close>: the block ran to its \<^verbatim>\<open>return\<close>. \<open>False\<close>: a statement threw, and the
  enclosing \<^verbatim>\<open>catch\<close> goes on with the state reached so far.
\<close>

definition adopt_and_mirror :: "jsval \<Rightarrow> state \<Rightarrow> bool \<times> state" where
  "adopt_and_mirror data s =
     (case alloc data s of
        (r, s1) \<Rightarrow>
          (let s2 = s1\<lparr>memoryCache := Some r\<rparr>
           in case dbInit s2 of
                Inl e \<Rightarrow> (False, s2)
              | Inr u \<Rightarrow>
                  (case dbSave data s2 of
                     Inl e \<Rightarrow> (False, s2)
                   | Inr s3 \<Rightarrow>
                       (case ls_setItem data s3 of
                          Inl e \<Rightarrow> (False, s3)
                        | Inr s4 \<Rightarrow> (True, s4)))))"

text \<open>The last part of \<^verbatim>\<open>initializeDataStorage()\<close>, which no handler encloses.\<close>

definition load_local :: "string \<Rightarrow> state \<Rightarrow> error option \<times> state" where
  "load_local now s =
     (case dbInit s of
        Inl e \<Rightarrow> (Some e, s)
      | Inr u \<Rightarrow>
          (case dbLoad s of
             Inl e \<Rightarrow> (Some e, s)
           | Inr None \<Rightarrow>
               (case alloc (createDefaultData now) s of
                  (r, s1) \<Rightarrow>
                    (let s2 = s1\<lparr>memoryCache := Some r\<rparr>
                     in case dbSave (createDefaultData now) s2 of
                          Inl e \<Rightarrow> (Some e, s2)
                        | Inr s3 \<Rightarrow> (None, s3)))
           | Inr (Some existing) \<Rightarrow>
               (case alloc existing s of (r, s1) \<Rightarrow> (None, s1\<lparr>memoryCache := Some r\<rparr>))))"

text \<open>
  \<^verbatim>\<open>initializeDataStorage()\<close>. The result is the exception the promise is rejected with,
  if any, and the state.
\<close>

definition initializeDataStorage :: "string \<Rightarrow> state \<Rightarrow> error option \<times> state" where
  "initializeDataStorage now s =
     (case tryLoadFromSupabase now s of
        (supabaseData, s1) \<Rightarrow>
          (case (case supabaseData of
                   Some d \<Rightarrow> adopt_and_mirror d s1
                 | None \<Rightarrow> (False, s1)) of
             (True, s2) \<Rightarrow> (None, s2)
           | (False, s2) \<Rightarrow>
               (case tryLoadFromNetlify now s2 of
                  (netlifyData, s3) \<Rightarrow>
                    (case (case netlifyData of
                             Some d \<Rightarrow> adopt_and_mirror d s3
                           | None \<Rightarrow> (False, s3)) of
                       (True, s4) \<Rightarrow> (None, s4)
                     | (False, s4) \<Rightarrow> load_local now s4))))"

text \<open>
  \<^verbatim>\<open>getData()\<close> returns a reference. The write to IndexedDB it starts is not awaited and
  its failure is ignored.
\<close>

definition getData :: "string \<Rightarrow> state \<Rightarrow> nat \<times> state" where
  "getData now s =
     (case memoryCache s of
        Some r \<Rightarrow> (r, s)
      | None \<Rightarrow>
          (case alloc (getDataFromLocalStorage now s) s of
             (r, s1) \<Rightarrow>
               (let s2 = s1\<lparr>memoryCache := Some r\<rparr>
                in (r, (case dbSave (heap s2 r) s2 of Inl e \<Rightarrow> s2 | Inr s3 \<Rightarrow> s3)))))"

text \<open>
  The object literal assigned to \<^verbatim>\<open>data.metadata\<close>:
  \<^verbatim>\<open>(data.metadata?.backupCount || 0) + 1\<close> is its last property.
\<close>

definition prior_backupCount :: "jsval \<Rightarrow> jsval option" where
  "prior_backupCount data =
     (case get_prop data ''metadata'' of
        Inl e \<Rightarrow> None
      | Inr None \<Rightarrow> None
      | Inr (Some JNull) \<Rightarrow> None
      | Inr (Some m) \<Rightarrow> (case get_prop m ''backupCount'' of Inl e \<Rightarrow> None | Inr v \<Rightarrow> v))"

definition next_backupCount :: "jsval \<Rightarrow> error + jsval" where
  "next_backupCount data =
     (case prior_backupCount data of
        None \<Rightarrow> js_plus_num (JNum 0) 1
      | Some v \<Rightarrow> js_plus_num (if truthy v then v else JNum 0) 1)"

definition new_metadata :: "string \<Rightarrow> jsval \<Rightarrow> error + jsval" where
  "new_metadata now data =
     (case next_backupCount data of
        Inl e \<Rightarrow> Inl e
      | Inr bc \<Rightarrow>
          Inr (JObj [(''lastModified'', JStr now), (''version'', JStr ''2.0''), (''backupCount'', bc)]))"

text \<open>
  The second half of \<^verbatim>\<open>saveData\<close>, from \<^verbatim>\<open>let saved = false\<close> to \<^verbatim>\<open>return true\<close>,
  for the reference \<open>mc\<close> held by \<^verbatim>\<open>this.memoryCache\<close>: the primary tier, then the legacy
  tier, then IndexedDB if neither accepted, then localStorage. The two remote clients
  catch their own exceptions; \<open>False\<close> is an exception of \<^verbatim>\<open>dbSave\<close> or of
  \<^verbatim>\<open>localStorage.setItem\<close>.
\<close>

definition write_tiers :: "nat \<Rightarrow> string \<Rightarrow> state \<Rightarrow> bool \<times> state" where
  "write_tiers mc now s =
     (case trySaveToSupabase (heap s mc) now s of
        (saved, s1) \<Rightarrow>
          (case (if \<not> saved then trySaveToNetlify (heap s1 mc) now s1 else (saved, s1)) of
             (saved', s2) \<Rightarrow>
               (case (if \<not> saved' then dbSave (heap s2 mc) s2 else Inr s2) of
                  Inl e \<Rightarrow> (False, s2)
                | Inr s3 \<Rightarrow>
                    (case ls_setItem (heap s3 mc) s3 of
                       Inl e \<Rightarrow> (False, s3)
                     | Inr s4 \<Rightarrow> (True, s4)))))"

text \<open>
  \<^verbatim>\<open>saveData(data)\<close>, the argument being a reference. Every exception inside is caught by
  the one handler, which returns \<^verbatim>\<open>false\<close>. \<^verbatim>\<open>JSON.parse(JSON.stringify(data))\<close> is a new
  object holding the JSON copy of the argument.
\<close>

definition saveData :: "string \<Rightarrow> nat \<Rightarrow> state \<Rightarrow> bool \<times> state" where
  "saveData now r s =
     (case validateDataStructure (heap s r) of
        Inl e \<Rightarrow> (False, s)
      | Inr False \<Rightarrow> (False, s)
      | Inr True \<Rightarrow>
          (case new_metadata now (heap s r) of
             Inl e \<Rightarrow> (False, s)
           | Inr md \<Rightarrow>
               (let s1 = s\<lparr>heap := (heap s)(r := set_prop (heap s r) ''metadata'' md)\<rparr>
                in case alloc (json_clone (heap s1 r)) s1 of
                     (mc, s2) \<Rightarrow> write_tiers mc now (s2\<lparr>memoryCache := Some mc\<rparr>))))"

text \<open>
  \<^verbatim>\<open>data.classes[this.currentClass].students[studentId]\<close>: each step reads a property
  of what the step before found, and throws when that is \<^verbatim>\<open>undefined\<close> or \<^verbatim>\<open>null\<close>.
\<close>

definition student_at :: "jsval \<Rightarrow> string \<Rightarrow> string \<Rightarrow> error + jsval option" where
  "student_at data currentClass studentId =
     (case get_prop data ''classes'' of
        Inl e \<Rightarrow> Inl e
      | Inr classes \<Rightarrow>
          (case get_prop_opt classes currentClass of
             Inl e \<Rightarrow> Inl e
           | Inr classData \<Rightarrow>
               (case get_prop_opt classData ''students'' of
                  Inl e \<Rightarrow> Inl e
                | Inr students \<Rightarrow> get_prop_opt students studentId)))"

text \<open>\<^verbatim>\<open>student.stars = v\<close> for the student found along that path.\<close>

definition set_student_stars :: "jsval \<Rightarrow> string \<Rightarrow> string \<Rightarrow> jsval \<Rightarrow> jsval" where
  "set_student_stars data currentClass studentId v =
     modify_prop data ''classes'' (\<lambda>classes.
       modify_prop classes currentClass (\<lambda>classData.
         modify_prop classData ''students'' (\<lambda>students.
           modify_prop students studentId (\<lambda>student. set_prop student ''stars'' v))))"

text \<open>
  \<^verbatim>\<open>Math.max(0, stars + amount)\<close> for a number \<^verbatim>\<open>stars\<close> and a finite \<^verbatim>\<open>amount\<close>. When
  \<^verbatim>\<open>stars\<close> is not a number the sum is a string or \<^verbatim>\<open>NaN\<close> by a conversion this
  development does not model: \<open>None\<close>.
\<close>

fun max0_plus :: "jsval \<Rightarrow> int \<Rightarrow> jsval option" where
  "max0_plus (JNum stars) amount = Some (JNum (max 0 (stars + amount)))"
| "max0_plus JNaN amount = Some JNaN"
| "max0_plus JInfinity amount = Some JInfinity"
| "max0_plus JNegInfinity amount = Some (JNum 0)"
| "max0_plus other amount = None"

text \<open>
  \<^verbatim>\<open>modifyStars(studentId, amount)\<close>, with \<^verbatim>\<open>this.currentClass\<close> as a parameter. The
  result is the uncaught exception, if any, and the state. The promise \<^verbatim>\<open>saveData\<close>
  returns is truthy whatever it resolves to, and what follows it only redraws the page.
  The case of a \<^verbatim>\<open>student.stars\<close> that is not a number is \<open>NonNumericStars\<close>.
\<close>

definition modifyStars :: "string \<Rightarrow> string \<Rightarrow> int \<Rightarrow> string \<Rightarrow> state \<Rightarrow> error option \<times> state" where
  "modifyStars currentClass studentId amount now s =
     (case getData now s of
        (r, s1) \<Rightarrow>
          (case student_at (heap s1 r) currentClass studentId of
             Inl e \<Rightarrow> (Some e, s1)
           | Inr student \<Rightarrow>
               if \<not> truthy_opt student then (None, s1)
               else (case get_prop_opt student ''stars'' of
                       Inl e \<Rightarrow> (Some e, s1)
                     | Inr None \<Rightarrow> (Some NonNumericStars, s1)
                     | Inr (Some stars) \<Rightarrow>
                         (case max0_plus stars amount of
                            None \<Rightarrow> (Some NonNumericStars, s1)
                          | Some v \<Rightarrow>
                              (let s2 = s1\<lparr>heap := (heap s1)(r :=
                                         set_student_stars (heap s1 r) currentClass studentId v)\<rparr>
                               in (None, snd (saveData now r s2)))))))"

subsection \<open>Notions the properties are stated with\<close>

text \<open>
  The properties read documents with two functions of their own: the own property of
  an object under a name, and the values of the entries of an object or an array.
\<close>

fun field :: "jsval \<Rightarrow> string \<Rightarrow> jsval option" where
  "field (JObj kv) k = map_of kv k"
| "field v k = None"

fun members :: "jsval \<Rightarrow> jsval list" where
  "members (JObj kv) = map snd kv"
| "members (JArr xs) = xs"
| "members v = []"

definition is_digit :: "char \<Rightarrow> bool" where
  "is_digit c = (c \<in> set ''0123456789'')"

text \<open>An object proper: an object or an array, not \<^verbatim>\<open>null\<close>.\<close>

fun is_object :: "jsval \<Rightarrow> bool" where
  "is_object (JObj kv) = True"
| "is_object (JArr xs) = True"
| "is_object v = False"

fun is_string :: "jsval \<Rightarrow> bool" where
  "is_string (JStr s) = True"
| "is_string v = False"

text \<open>
  The contract of the schema validator as the specification words it: the candidate is
  an object; \<^verbatim>\<open>classes\<close>, \<^verbatim>\<open>teachers\<close>, \<^verbatim>\<open>settings\<close> are objects; every class has
  a \<^verbatim>\<open>students\<close> object; every student has a non-empty string \<^verbatim>\<open>name\<close> and a numeric
  \<^verbatim>\<open>stars\<close> that is at least 0 (which \<^verbatim>\<open>Infinity\<close> is and \<^verbatim>\<open>NaN\<close> is not); every
  teacher has a string value.
\<close>

fun at_least_zero :: "jsval \<Rightarrow> bool" where
  "at_least_zero (JNum n) = (0 \<le> n)"
| "at_least_zero JInfinity = True"
| "at_least_zero v = False"

definition spec_student :: "jsval \<Rightarrow> bool" where
  "spec_student student =
     ((case field student ''name'' of Some (JStr n) \<Rightarrow> n \<noteq> [] | _ \<Rightarrow> False) \<and>
      (case field student ''stars'' of Some v \<Rightarrow> at_least_zero v | None \<Rightarrow> False))"

definition spec_class :: "jsval \<Rightarrow> bool" where
  "spec_class classData =
     (case field classData ''students'' of
        Some students \<Rightarrow> is_object students \<and> list_all spec_student (members students)
      | None \<Rightarrow> False)"

definition spec_validate :: "jsval \<Rightarrow> bool" where
  "spec_validate candidate =
     (is_object candidate \<and>
      (case field candidate ''classes'' of
         Some classes \<Rightarrow> is_object classes \<and> list_all spec_class (members classes)
       | None \<Rightarrow> False) \<and>
      (case field candidate ''teachers'' of
         Some teachers \<Rightarrow> is_object teachers \<and> list_all is_string (members teachers)
       | None \<Rightarrow> False) \<and>
      (case field candidate ''settings'' of
         Some settings \<Rightarrow> is_object settings
       | None \<Rightarrow> False))"

text \<open>
  The contract as amended. A \<^verbatim>\<open>stars\<close> is accepted when it is a number that is not
  below 0, which \<^verbatim>\<open>NaN\<close> is; and the candidate has no own property \<^verbatim>\<open>hasOwnProperty\<close>.
\<close>

fun not_below_zero :: "jsval \<Rightarrow> bool" where
  "not_below_zero (JNum n) = (0 \<le> n)"
| "not_below_zero JInfinity = True"
| "not_below_zero JNaN = True"
| "not_below_zero v = False"

definition amended_student :: "jsval \<Rightarrow> bool" where
  "amended_student student =
     ((case field student ''name'' of Some (JStr n) \<Rightarrow> n \<noteq> [] | _ \<Rightarrow> False) \<and>
      (case field student ''stars'' of Some v \<Rightarrow> not_below_zero v | None \<Rightarrow> False))"

definition amended_class :: "jsval \<Rightarrow> bool" where
  "amended_class classData =
     (case field classData ''students'' of
        Some students \<Rightarrow> is_object students \<and> list_all amended_student (members students)
      | None \<Rightarrow> False)"

definition props_are_objects :: "jsval \<Rightarrow> bool" where
  "props_are_objects candidate =
     ((case field candidate ''classes'' of Some v \<Rightarrow> is_object v | None \<Rightarrow> False) \<and>
      (case field candidate ''teachers'' of Some v \<Rightarrow> is_object v | None \<Rightarrow> False) \<and>
      (case field candidate ''settings'' of Some v \<Rightarrow> is_object v | None \<Rightarrow> False))"

definition valid_amended :: "jsval \<Rightarrow> bool" where
  "valid_amended candidate =
     ((case candidate of JObj kv \<Rightarrow> True | _ \<Rightarrow> False) \<and>
      field candidate ''hasOwnProperty'' = None \<and>
      props_are_objects candidate \<and>
      (case field candidate ''classes'' of
         Some classes \<Rightarrow> list_all amended_class (members classes)
       | None \<Rightarrow> False) \<and>
      (case field candidate ''teachers'' of
         Some teachers \<Rightarrow> list_all is_string (members teachers)
       | None \<Rightarrow> False))"

text \<open>
  When the validator throws. The loops stop at the first entry they do not accept; they
  throw when that entry is \<^verbatim>\<open>null\<close>, or is a class whose own loop over its students
  throws. Before the loops, the call of an own \<^verbatim>\<open>hasOwnProperty\<close> throws.
\<close>

fun first_rejected :: "('a \<Rightarrow> bool) \<Rightarrow> 'a list \<Rightarrow> 'a option" where
  "first_rejected accepted [] = None"
| "first_rejected accepted (x # xs) =
     (if accepted x then first_rejected accepted xs else Some x)"

definition class_throws :: "jsval \<Rightarrow> bool" where
  "class_throws classData =
     (classData = JNull \<or>
      (case field classData ''students'' of
         Some students \<Rightarrow>
           is_object students \<and> first_rejected amended_student (members students) = Some JNull
       | None \<Rightarrow> False))"

definition throws_amended :: "jsval \<Rightarrow> bool" where
  "throws_amended candidate =
     ((case candidate of JObj kv \<Rightarrow> True | _ \<Rightarrow> False) \<and>
      (field candidate ''hasOwnProperty'' \<noteq> None \<or>
       props_are_objects candidate \<and>
       (case field candidate ''classes'' of
          Some classes \<Rightarrow>
            (case first_rejected amended_class (members classes) of
               Some classData \<Rightarrow> class_throws classData
             | None \<Rightarrow> False)
        | None \<Rightarrow> False)))"

text \<open>
  The candidates the amended contract is stated for: no student has a truthy \<^verbatim>\<open>name\<close>
  that is not a string, and none of \<^verbatim>\<open>classes\<close>, \<^verbatim>\<open>teachers\<close>, \<^verbatim>\<open>settings\<close> is \<^verbatim>\<open>null\<close>.
\<close>

definition name_typed :: "jsval \<Rightarrow> bool" where
  "name_typed student =
     (case field student ''name'' of None \<Rightarrow> True | Some v \<Rightarrow> is_string v \<or> \<not> truthy v)"

definition names_typed :: "jsval \<Rightarrow> bool" where
  "names_typed candidate =
     list_all
       (\<lambda>classData.
          list_all name_typed
            (case field classData ''students'' of None \<Rightarrow> [] | Some students \<Rightarrow> members students))
       (case field candidate ''classes'' of None \<Rightarrow> [] | Some classes \<Rightarrow> members classes)"

definition no_null_props :: "jsval \<Rightarrow> bool" where
  "no_null_props candidate =
     (field candidate ''classes'' \<noteq> Some JNull \<and>
      field candidate ''teachers'' \<noteq> Some JNull \<and>
      field candidate ''settings'' \<noteq> Some JNull)"

text \<open>
  Two documents are equal except for the three stamped fields of \<^verbatim>\<open>metadata\<close>: they have
  the same properties besides \<^verbatim>\<open>metadata\<close>, and their \<^verbatim>\<open>metadata\<close> have the same fields
  besides \<^verbatim>\<open>lastModified\<close>, \<^verbatim>\<open>version\<close> and \<^verbatim>\<open>backupCount\<close>.
\<close>

definition stamped_fields :: "string list" where
  "stamped_fields = [''lastModified'', ''version'', ''backupCount'']"

fun own_entries :: "jsval \<Rightarrow> (string \<times> jsval) list" where
  "own_entries (JObj kv) = kv"
| "own_entries v = []"

definition without_metadata :: "jsval \<Rightarrow> (string \<times> jsval) list" where
  "without_metadata d = filter (\<lambda>kv. fst kv \<noteq> ''metadata'') (own_entries d)"

definition other_metadata :: "jsval \<Rightarrow> (string \<times> jsval) list" where
  "other_metadata d =
     filter (\<lambda>kv. fst kv \<notin> set stamped_fields)
       (case field d ''metadata'' of None \<Rightarrow> [] | Some m \<Rightarrow> own_entries m)"

definition equal_except_stamped :: "jsval \<Rightarrow> jsval \<Rightarrow> bool" where
  "equal_except_stamped a b =
     (without_metadata a = without_metadata b \<and> other_metadata a = other_metadata b)"

text \<open>The metadata object \<^verbatim>\<open>saveData\<close> builds, given its backup counter.\<close>

definition stamp :: "string \<Rightarrow> jsval \<Rightarrow> jsval" where
  "stamp now bc =
     JObj [(''lastModified'', JStr now), (''version'', JStr ''2.0''), (''backupCount'', bc)]"

text \<open>The authoritative copy: the object \<^verbatim>\<open>this.memoryCache\<close> refers to, if any.\<close>

definition authoritative :: "state \<Rightarrow> jsval option" where
  "authoritative s = map_option (heap s) (memoryCache s)"

text \<open>An own property, read without throwing (\<open>None\<close> for \<^verbatim>\<open>null\<close>).\<close>

definition own :: "jsval \<Rightarrow> string \<Rightarrow> jsval option" where
  "own v k = (case get_prop v k of Inl e \<Rightarrow> None | Inr r \<Rightarrow> r)"

text \<open>The star count of a student of a class in a document.\<close>

definition stars_of :: "jsval \<Rightarrow> string \<Rightarrow> string \<Rightarrow> jsval option" where
  "stars_of data currentClass studentId =
     (case student_at data currentClass studentId of
        Inr (Some student) \<Rightarrow> own student ''stars''
      | _ \<Rightarrow> None)"

text \<open>What \<^verbatim>\<open>getData()\<close> returns when it is called right after \<^verbatim>\<open>saveData(data)\<close>.\<close>

definition read_after_save :: "string \<Rightarrow> string \<Rightarrow> nat \<Rightarrow> state \<Rightarrow> jsval" where
  "read_after_save now now' r s =
     (case getData now' (snd (saveData now r s)) of (r', s') \<Rightarrow> heap s' r')"

text \<open>What \<^verbatim>\<open>getData()\<close> returns when it is called after \<^verbatim>\<open>initializeDataStorage()\<close>.\<close>

definition read_after_startup :: "string \<Rightarrow> string \<Rightarrow> state \<Rightarrow> jsval" where
  "read_after_startup now now' s =
     (case getData now' (snd (initializeDataStorage now s)) of (r, s') \<Rightarrow> heap s' r)"

text \<open>
  The authoritative copy, if there is one, passes the validator; so does what IndexedDB
  holds, if \<^verbatim>\<open>dbLoad()\<close> would return it.
\<close>

definition memory_valid :: "state \<Rightarrow> bool" where
  "memory_valid s =
     (case authoritative s of None \<Rightarrow> True | Some d \<Rightarrow> validateDataStructure d = Inr True)"

definition idb_valid :: "state \<Rightarrow> bool" where
  "idb_valid s =
     (case idb s of None \<Rightarrow> True | Some v \<Rightarrow> truthy v \<longrightarrow> validateDataStructure v = Inr True)"

text \<open>
  A body the two \<^verbatim>\<open>PUT\<close> handlers accept: an object, not an array, with a truthy own
  property \<^verbatim>\<open>classes\<close>.
\<close>

definition accepted_body :: "jsval \<Rightarrow> bool" where
  "accepted_body parsed =
     (case parsed of
        JObj kv \<Rightarrow> (case map_of kv ''classes'' of Some c \<Rightarrow> truthy c | None \<Rightarrow> False)
      | _ \<Rightarrow> False)"

text \<open>A caller writes \<open>v\<close> into the object it holds the reference \<open>r\<close> of.\<close>

definition caller_writes :: "nat \<Rightarrow> jsval \<Rightarrow> state \<Rightarrow> state" where
  "caller_writes r v s = s\<lparr>heap := (heap s)(r := v)\<rparr>"

text \<open>What the storage tiers hold, the client's memory left out.\<close>

definition tiers :: "state \<Rightarrow> jsval option \<times> json_text option \<times> jsval option \<times> jsval option" where
  "tiers s = (idb s, ls s, sb_row s, blob s)"

subsection \<open>Example documents and states\<close>

text \<open>
  A page that has just been opened: nothing in memory, nothing stored anywhere, the
  stores working and both functions reachable.
\<close>

definition fresh_state :: state where
  "fresh_state =
     \<lparr>heap = (\<lambda>r. JNull), next_ref = 0, memoryCache = None,
      idb_up = True, idb = None, ls_writable = True, ls = None,
      online = True, sb_configured = True, sb_error = False, sb_row = None,
      blob_error = False, blob = None, requests = []\<rparr>"

text \<open>The same page after a caller has built the document \<open>d\<close>, as object 0.\<close>

definition holding :: "jsval \<Rightarrow> state" where
  "holding d = fresh_state\<lparr>heap := (\<lambda>r. JNull)(0 := d), next_ref := 1\<rparr>"

definition doc_classes_only :: jsval where
  "doc_classes_only = JObj [(''classes'', JObj [(''Math'', JObj [(''students'', JObj [])])])]"

definition doc_math :: jsval where
  "doc_math =
     JObj [(''classes'',
              JObj [(''Math'',
                 JObj [(''students'',
                    JObj [(''s1'', JObj [(''name'', JStr ''Ada''), (''stars'', JNum 3)])])])]),
           (''teachers'', JObj [(''teacher'', JStr ''starboard'')]),
           (''settings'', JObj [])]"

definition doc_art :: jsval where
  "doc_art =
     JObj [(''classes'', JObj [(''Art'', JObj [(''students'', JObj [])])]),
           (''teachers'', JObj []),
           (''settings'', JObj [])]"

text \<open>A document with a student but without \<^verbatim>\<open>teachers\<close> and \<^verbatim>\<open>settings\<close>.\<close>

definition doc_no_teachers :: jsval where
  "doc_no_teachers =
     JObj [(''classes'',
              JObj [(''Math'',
                 JObj [(''students'',
                    JObj [(''s1'', JObj [(''name'', JStr ''Ada''), (''stars'', JNum 3)])])])])]"

text \<open>The page once \<open>d\<close>, object 0, has become the authoritative copy.\<close>

definition adopted :: "jsval \<Rightarrow> state" where
  "adopted d = (holding d)\<lparr>memoryCache := Some 0\<rparr>"

text \<open>
  A browser whose IndexedDB fails, while the primary tier holds one valid document and
  the legacy tier another.
\<close>

definition two_tiers_no_idb :: state where
  "two_tiers_no_idb = fresh_state\<lparr>idb_up := False, sb_row := Some doc_math, blob := Some doc_art\<rparr>"

text \<open>
  A valid document that has been saved four times, one whose only student has \<^verbatim>\<open>NaN\<close>
  stars, one whose only student has \<^verbatim>\<open>Infinity\<close> stars (as \<^verbatim>\<open>JSON.parse\<close> reads
  \<^verbatim>\<open>1e400\<close>), and one whose backup counter is an object with an own \<^verbatim>\<open>toString\<close>.
\<close>

definition doc_saved :: jsval where
  "doc_saved =
     JObj [(''classes'', JObj []),
           (''teachers'', JObj [(''teacher'', JStr ''starboard'')]),
           (''settings'', JObj []),
           (''metadata'', JObj [(''version'', JStr ''2.0''), (''created'', JStr ''t0''),
                                (''lastModified'', JStr ''t0''), (''backupCount'', JNum 4)])]"

definition doc_nan :: jsval where
  "doc_nan =
     JObj [(''classes'',
              JObj [(''Math'',
                 JObj [(''students'',
                    JObj [(''s1'', JObj [(''name'', JStr ''Ada''), (''stars'', JNaN)])])])]),
           (''teachers'', JObj []),
           (''settings'', JObj [])]"

definition doc_infinity :: jsval where
  "doc_infinity =
     JObj [(''classes'',
              JObj [(''Math'',
                 JObj [(''students'',
                    JObj [(''s1'', JObj [(''name'', JStr ''Ada''), (''stars'', JInfinity)])])])]),
           (''teachers'', JObj []),
           (''settings'', JObj [])]"

definition doc_badcounter :: jsval where
  "doc_badcounter =
     JObj [(''classes'', JObj []),
           (''teachers'', JObj []),
           (''settings'', JObj []),
           (''metadata'', JObj [(''backupCount'', JObj [(''toString'', JNum 1)])])]"

text \<open>Candidates with a \<^verbatim>\<open>null\<close> class: the first one met, and one met after a bad class.\<close>

definition doc_null_class :: jsval where
  "doc_null_class =
     JObj [(''classes'', JObj [(''a'', JNull)]), (''teachers'', JObj []), (''settings'', JObj [])]"

definition doc_null_class_late :: jsval where
  "doc_null_class_late =
     JObj [(''classes'', JObj [(''a'', JObj []), (''b'', JNull)]),
           (''teachers'', JObj []), (''settings'', JObj [])]"

text \<open>A candidate whose classes are an array, the second of which has no students.\<close>

definition doc_class_array :: jsval where
  "doc_class_array =
     JObj [(''classes'', JArr [JObj [(''students'', JObj [])], JObj []]),
           (''teachers'', JObj []), (''settings'', JObj [])]"

section \<open>Properties\<close>

subsection \<open>Array keys are decimal numerals\<close>

lemma digit_char_digit: "d < 10 \<Longrightarrow> is_digit (digit_char d)"
  unfolding digit_char_def is_digit_def by (rule nth_mem) simp

lemma dec_digits: "c \<in> set (dec n) \<Longrightarrow> is_digit c"
proof (induction n rule: dec.induct)
  case (1 n)
  show ?case
  proof (cases "n < 10")
    case True
    then have "dec n = [digit_char n]" by (subst dec.simps) simp
    with 1(2) True show ?thesis by (simp add: digit_char_digit)
  next
    case False
    then have "dec n = dec (n div 10) @ [digit_char (n mod 10)]" by (subst dec.simps) simp
    with 1(2) have "c \<in> set (dec (n div 10)) \<or> c = digit_char (n mod 10)" by auto
    then show ?thesis
    proof
      assume "c \<in> set (dec (n div 10))"
      with 1(1) False show ?thesis by simp
    next
      assume "c = digit_char (n mod 10)"
      then show ?thesis by (simp add: digit_char_digit)
    qed
  qed
qed

lemma arr_entries_keys: "(k, v) \<in> set (arr_entries xs) \<Longrightarrow> c \<in> set k \<Longrightarrow> is_digit c"
  unfolding arr_entries_def by (auto dest!: set_zip_leftD dec_digits)

lemma arr_entries_no_letter:
  assumes "k \<noteq> []" "\<not> is_digit (hd k)"
  shows "map_of (arr_entries xs) k = None"
proof (cases "map_of (arr_entries xs) k")
  case None then show ?thesis .
next
  case (Some v)
  then have "(k, v) \<in> set (arr_entries xs)" by (rule map_of_SomeD)
  moreover have "hd k \<in> set k" using assms(1) by simp
  ultimately show ?thesis using arr_entries_keys assms(2) by blast
qed

lemma arr_no_fixed_key [simp]:
  "map_of (arr_entries xs) ''classes'' = None"
  "map_of (arr_entries xs) ''students'' = None"
  "map_of (arr_entries xs) ''name'' = None"
  "map_of (arr_entries xs) ''stars'' = None"
  "map_of (arr_entries xs) ''metadata'' = None"
  "map_of (arr_entries xs) ''backupCount'' = None"
  by (rule arr_entries_no_letter; simp add: is_digit_def)+

lemma map_snd_arr_entries [simp]: "map snd (arr_entries xs) = xs"
  by (simp add: arr_entries_def)

subsection \<open>The code's reads and the properties' reads agree\<close>

lemma get_prop_fixed:
  "v \<noteq> JNull \<Longrightarrow> get_prop v ''name'' = Inr (field v ''name'')"
  "v \<noteq> JNull \<Longrightarrow> get_prop v ''stars'' = Inr (field v ''stars'')"
  "v \<noteq> JNull \<Longrightarrow> get_prop v ''students'' = Inr (field v ''students'')"
  by (cases v; simp)+

lemma entries_members: "is_object v \<Longrightarrow> map snd (entries v) = members v"
  by (cases v) simp_all

lemma typeof_truthy_object: "(truthy v \<and> typeof_object v) = is_object v"
  by (cases v) simp_all

lemma accepted_stars: "(typeof_number_opt (Some v) \<and> \<not> less_than_zero (Some v)) = not_below_zero v"
  by (cases v) auto

subsection \<open>What the validator returns\<close>

lemma first_rejected_None: "(first_rejected P xs = None) = list_all P xs"
  by (induction xs) simp_all

lemma first_rejected_Some: "first_rejected P xs = Some x \<Longrightarrow> \<not> P x"
  by (induction xs) (auto split: if_splits)

lemma student_ok_eq:
  assumes "name_typed st"
  shows "student_ok st = (if st = JNull then Inl TypeError else Inr (amended_student st))"
proof (cases "st = JNull")
  case True
  then show ?thesis by (simp add: student_ok_def)
next
  case False
  show ?thesis
  proof (cases "field st ''name''")
    case None
    then show ?thesis using False
      by (simp add: student_ok_def get_prop_fixed amended_student_def)
  next
    case (Some nm)
    show ?thesis
    proof (cases "field st ''stars''")
      case None
      then show ?thesis using False Some
        by (simp add: student_ok_def get_prop_fixed amended_student_def)
    next
      case (Some stars)
      note stars = this
      from assms \<open>field st ''name'' = Some nm\<close> have nt: "is_string nm \<or> \<not> truthy nm"
        by (simp add: name_typed_def)
      show ?thesis
        using False \<open>field st ''name'' = Some nm\<close> stars nt accepted_stars[of stars]
        by (cases nm) (auto simp: student_ok_def get_prop_fixed amended_student_def)
    qed
  qed
qed

lemma validate_students_eq:
  assumes "list_all name_typed (map snd es)"
  shows "validate_students es =
           (if first_rejected amended_student (map snd es) = Some JNull then Inl TypeError
            else Inr (list_all amended_student (map snd es)))"
  using assms
proof (induction es)
  case Nil
  then show ?case by simp
next
  case (Cons e es)
  obtain k st where e: "e = (k, st)" by (cases e)
  from Cons.prems e have nt: "name_typed st" and rest: "list_all name_typed (map snd es)"
    by simp_all
  have n: "\<not> amended_student JNull" by (simp add: amended_student_def)
  show ?case
    using Cons.IH[OF rest] student_ok_eq[OF nt] e n by auto
qed

lemma class_throws_rejected: "class_throws cd \<Longrightarrow> \<not> amended_class cd"
  by (auto simp: class_throws_def amended_class_def first_rejected_None[symmetric]
           split: option.splits)

lemma class_ok_eq:
  assumes "list_all name_typed
             (case field cd ''students'' of None \<Rightarrow> [] | Some students \<Rightarrow> members students)"
  shows "class_ok cd = (if class_throws cd then Inl TypeError else Inr (amended_class cd))"
proof (cases "cd = JNull")
  case True
  then show ?thesis by (simp add: class_ok_def class_throws_def)
next
  case False
  show ?thesis
  proof (cases "field cd ''students''")
    case None
    then show ?thesis using False
      by (simp add: class_ok_def get_prop_fixed class_throws_def amended_class_def)
  next
    case (Some sv)
    show ?thesis
    proof (cases "is_object sv")
      case no: False
      then have "\<not> truthy sv \<or> \<not> typeof_object sv" using typeof_truthy_object[of sv] by simp
      then show ?thesis using False Some no
        by (auto simp: class_ok_def get_prop_fixed class_throws_def amended_class_def)
    next
      case yes: True
      then have t: "truthy sv" "typeof_object sv" using typeof_truthy_object[of sv] by simp_all
      from assms Some have "list_all name_typed (members sv)" by simp
      then have "list_all name_typed (map snd (entries sv))" by (simp add: entries_members yes)
      from validate_students_eq[OF this]
      show ?thesis using False Some yes t
        by (simp add: class_ok_def get_prop_fixed class_throws_def amended_class_def
              entries_members)
    qed
  qed
qed

lemma validate_classes_eq:
  assumes "list_all
             (\<lambda>cd. list_all name_typed
                (case field cd ''students'' of None \<Rightarrow> [] | Some students \<Rightarrow> members students))
             (map snd es)"
  shows "validate_classes es =
           (if (case first_rejected amended_class (map snd es) of
                  Some cd \<Rightarrow> class_throws cd | None \<Rightarrow> False)
            then Inl TypeError
            else Inr (list_all amended_class (map snd es)))"
  using assms
proof (induction es)
  case Nil
  then show ?case by simp
next
  case (Cons e es)
  obtain k cd where e: "e = (k, cd)" by (cases e)
  from Cons.prems e
  have nt: "list_all name_typed
             (case field cd ''students'' of None \<Rightarrow> [] | Some students \<Rightarrow> members students)"
    and rest: "list_all
             (\<lambda>cd. list_all name_typed
                (case field cd ''students'' of None \<Rightarrow> [] | Some students \<Rightarrow> members students))
             (map snd es)"
    by simp_all
  show ?case
    using Cons.IH[OF rest] class_ok_eq[OF nt] e class_throws_rejected[of cd] by auto
qed

lemma validate_teachers_eq:
  "validate_teachers es = Inr (list_all is_string (map snd es))"
proof (induction es)
  case Nil
  then show ?case by simp
next
  case (Cons e es)
  obtain k pw where e: "e = (k, pw)" by (cases e)
  show ?case using Cons.IH e by (cases pw) simp_all
qed

lemma validate_arr: "validateDataStructure (JArr xs) = Inr False"
  by (simp add: validateDataStructure_def requiredProps_def)

lemma validate_required_obj:
  "validate_required (JObj kv) requiredProps =
     (if map_of kv ''hasOwnProperty'' \<noteq> None then Inl TypeError
      else Inr (typeof_object_opt (map_of kv ''classes'') \<and>
                typeof_object_opt (map_of kv ''teachers'') \<and>
                typeof_object_opt (map_of kv ''settings'')))"
  by (cases "map_of kv ''classes''"; cases "map_of kv ''teachers''"; cases "map_of kv ''settings''")
     (auto simp: requiredProps_def)

lemma typeof_not_null: "v \<noteq> JNull \<Longrightarrow> typeof_object v = is_object v"
  by (cases v) simp_all

lemma is_object_truthy: "is_object v \<Longrightarrow> truthy v"
  by (cases v) simp_all

lemma validate_eq:
  assumes nt: "names_typed candidate" and nn: "no_null_props candidate"
  shows "validateDataStructure candidate =
           (if throws_amended candidate then Inl TypeError else Inr (valid_amended candidate))"
proof (cases candidate)
  case (JObj kv)
  show ?thesis
  proof (cases "map_of kv ''hasOwnProperty'' = None")
    case False
    then show ?thesis using JObj
      by (simp add: validateDataStructure_def validate_required_obj throws_amended_def)
  next
    case True
    have po: "props_are_objects candidate =
               (typeof_object_opt (map_of kv ''classes'') \<and>
                typeof_object_opt (map_of kv ''teachers'') \<and>
                typeof_object_opt (map_of kv ''settings''))"
      using nn JObj
      by (auto simp: props_are_objects_def no_null_props_def typeof_not_null split: option.splits)
    show ?thesis
    proof (cases "props_are_objects candidate")
      case False
      then have "validate_required (JObj kv) requiredProps = Inr False"
        using True po JObj by (simp add: validate_required_obj)
      then show ?thesis using JObj True False
        by (simp add: validateDataStructure_def throws_amended_def valid_amended_def)
    next
      case yes: True
      then obtain c t where c: "map_of kv ''classes'' = Some c" "is_object c"
        and t: "map_of kv ''teachers'' = Some t" "is_object t"
        using JObj by (auto simp: props_are_objects_def split: option.splits)
      from nt JObj c have
        "list_all
             (\<lambda>cd. list_all name_typed
                (case field cd ''students'' of None \<Rightarrow> [] | Some students \<Rightarrow> members students))
             (map snd (entries c))"
        by (simp add: names_typed_def entries_members)
      note vc = validate_classes_eq[OF this]
      have r: "validate_required (JObj kv) requiredProps = Inr True"
        using True yes po by (simp add: validate_required_obj)
      show ?thesis
        using JObj True yes c t r vc
        by (auto simp add: validateDataStructure_def throws_amended_def valid_amended_def
              is_object_truthy entries_members validate_teachers_eq
              split: bool.splits option.splits)
    qed
  qed
next
  case (JArr xs)
  then show ?thesis by (simp add: validate_arr throws_amended_def valid_amended_def)
qed (simp_all add: validateDataStructure_def throws_amended_def valid_amended_def)

lemma throws_not_valid: "throws_amended c \<Longrightarrow> \<not> valid_amended c"
  by (auto simp: throws_amended_def valid_amended_def first_rejected_None[symmetric]
           split: option.splits jsval.splits)

lemma validate_default [simp]: "validateDataStructure (createDefaultData now) = Inr True"
  by (simp add: validateDataStructure_def createDefaultData_def requiredProps_def)

lemma validate_is_obj: "validateDataStructure d = Inr True \<Longrightarrow> \<exists>kv. d = JObj kv"
  by (cases d) (simp_all add: validate_arr, simp_all add: validateDataStructure_def)

subsection \<open>The JSON copy\<close>

lemma map_of_map_snd:
  "map_of (map (\<lambda>p. (fst p, f (snd p))) kv) k = map_option f (map_of kv k)"
  by (induction kv) auto

lemma json_clone_idem: "json_clone (json_clone v) = json_clone v"
proof (induction v)
  case (JArr xs)
  then show ?case by (induction xs) simp_all
next
  case (JObj kv)
  then show ?case by (induction kv) (auto simp: snds.simps)
qed simp_all

lemma map_of_assign_own:
  "map_of (assign_own k v kv) k' = (if k' = k then Some v else map_of kv k')"
  by (induction kv) auto

lemma map_of_modify_own:
  "map_of (modify_own k f kv) k' = (if k' = k then map_option f (map_of kv k) else map_of kv k')"
  by (induction kv) auto

lemma filter_assign_own:
  "filter (\<lambda>kv. fst kv \<noteq> k) (assign_own k v kv) = filter (\<lambda>kv. fst kv \<noteq> k) kv"
  by (induction kv) auto

lemma map_assign_own:
  "map (\<lambda>p. (fst p, f (snd p))) (assign_own k v kv) = assign_own k (f v) (map (\<lambda>p. (fst p, f (snd p))) kv)"
  by (induction kv) auto

lemma json_clone_set_prop:
  "json_clone (set_prop d k v) = set_prop (json_clone d) k (json_clone v)"
  by (cases d) (simp_all add: map_assign_own)

lemma json_clone_stamp: "json_clone (stamp now bc) = stamp now (json_clone bc)"
  by (simp add: stamp_def)

lemma validate_obj_cong:
  assumes "map_of kv' ''hasOwnProperty'' = map_of kv ''hasOwnProperty''"
    and "map_of kv' ''classes'' = map_of kv ''classes''"
    and "map_of kv' ''teachers'' = map_of kv ''teachers''"
    and "map_of kv' ''settings'' = map_of kv ''settings''"
  shows "validateDataStructure (JObj kv') = validateDataStructure (JObj kv)"
  using assms
  by (simp add: validateDataStructure_def requiredProps_def
        cong: sum.case_cong bool.case_cong option.case_cong if_cong)

lemma validate_set_metadata:
  "validateDataStructure (set_prop d ''metadata'' md) = validateDataStructure d"
proof (cases d)
  case (JObj kv)
  then show ?thesis
    by (simp add: validate_obj_cong[of "assign_own ''metadata'' md kv" kv] map_of_assign_own)
qed simp_all

subsection \<open>Requests leave the client's memory and the local stores alone\<close>

lemma fetch_frame:
  "fetch ep m body now s = (res, s') \<Longrightarrow>
     heap s' = heap s \<and> next_ref s' = next_ref s \<and> memoryCache s' = memoryCache s \<and>
     idb s' = idb s \<and> idb_up s' = idb_up s \<and> ls s' = ls s \<and> ls_writable s' = ls_writable s \<and>
     online s' = online s \<and> requests s' = requests s @ [(ep, m)]"
  by (auto simp: fetch_def supabase_handler_def netlify_handler_def Let_def
           split: if_splits endpoint.splits http_method.splits option.splits json_text.splits prod.splits)

lemma trySaveTo_frame:
  "trySaveTo ep d now s = (b, s') \<Longrightarrow>
     heap s' = heap s \<and> next_ref s' = next_ref s \<and> memoryCache s' = memoryCache s \<and>
     idb s' = idb s \<and> idb_up s' = idb_up s \<and> ls s' = ls s \<and> ls_writable s' = ls_writable s \<and>
     online s' = online s \<and> requests s' = requests s @ [(ep, PUT)]"
  unfolding trySaveTo_def
  by (auto split: prod.splits option.splits dest!: fetch_frame)

lemma trySaveTo_snd [simp]:
  "heap (snd (trySaveTo ep d now s)) = heap s"
  "next_ref (snd (trySaveTo ep d now s)) = next_ref s"
  "memoryCache (snd (trySaveTo ep d now s)) = memoryCache s"
  "idb (snd (trySaveTo ep d now s)) = idb s"
  "idb_up (snd (trySaveTo ep d now s)) = idb_up s"
  "ls (snd (trySaveTo ep d now s)) = ls s"
  "ls_writable (snd (trySaveTo ep d now s)) = ls_writable s"
  "online (snd (trySaveTo ep d now s)) = online s"
  "requests (snd (trySaveTo ep d now s)) = requests s @ [(ep, PUT)]"
  using trySaveTo_frame[OF surjective_pairing, of ep d now s] by simp_all

lemma tryLoadFrom_frame:
  "tryLoadFrom ep now s = (b, s') \<Longrightarrow>
     heap s' = heap s \<and> next_ref s' = next_ref s \<and> memoryCache s' = memoryCache s \<and>
     idb s' = idb s \<and> idb_up s' = idb_up s \<and> ls s' = ls s \<and> ls_writable s' = ls_writable s \<and>
     online s' = online s \<and> requests s' = requests s @ [(ep, GET)]"
  unfolding tryLoadFrom_def
  by (auto split: prod.splits option.splits if_splits sum.splits bool.splits dest!: fetch_frame)

lemma tryLoadFrom_snd [simp]:
  "heap (snd (tryLoadFrom ep now s)) = heap s"
  "next_ref (snd (tryLoadFrom ep now s)) = next_ref s"
  "memoryCache (snd (tryLoadFrom ep now s)) = memoryCache s"
  "idb (snd (tryLoadFrom ep now s)) = idb s"
  "idb_up (snd (tryLoadFrom ep now s)) = idb_up s"
  "ls (snd (tryLoadFrom ep now s)) = ls s"
  "ls_writable (snd (tryLoadFrom ep now s)) = ls_writable s"
  "online (snd (tryLoadFrom ep now s)) = online s"
  "requests (snd (tryLoadFrom ep now s)) = requests s @ [(ep, GET)]"
  using tryLoadFrom_frame[OF surjective_pairing, of ep now s] by simp_all

lemma tryLoadFrom_valid:
  "fst (tryLoadFrom ep now s) = Some d \<Longrightarrow> validateDataStructure d = Inr True"
  by (auto simp: tryLoadFrom_def split: prod.splits option.splits if_splits sum.splits bool.splits)

lemma handler_body_copied:
  "json_clone (snd (fst (supabase_handler m body now s))) = snd (fst (supabase_handler m body now s))"
  "json_clone (snd (fst (netlify_handler m body now s))) = snd (fst (netlify_handler m body now s))"
  by (simp_all add: supabase_handler_def netlify_handler_def json_def json_clone_idem
           split: http_method.splits option.splits json_text.splits)

lemma fetch_body_copied:
  "fst (fetch ep m body now s) = Some res \<Longrightarrow> json_clone (snd res) = snd res"
  using handler_body_copied[of m body now "s\<lparr>requests := requests s @ [(ep, m)]\<rparr>"]
  by (auto simp: fetch_def Let_def split_beta split: if_splits endpoint.splits)

lemma tryLoadFrom_copied:
  assumes "fst (tryLoadFrom ep now s) = Some d"
  shows "json_clone d = d"
proof -
  obtain r s1 where f: "fetch ep GET None now s = (r, s1)" by (cases "fetch ep GET None now s")
  with assms obtain res where r: "r = Some res" and d: "d = snd res"
    by (cases r) (auto simp: tryLoadFrom_def split: if_splits sum.splits bool.splits)
  from f r have "fst (fetch ep GET None now s) = Some res" by simp
  then show ?thesis using d fetch_body_copied by blast
qed

subsection \<open>What \<^verbatim>\<open>saveData\<close> does\<close>

lemma write_tiers_frame [simp]:
  "heap (snd (write_tiers mc now s)) = heap s"
  "next_ref (snd (write_tiers mc now s)) = next_ref s"
  "memoryCache (snd (write_tiers mc now s)) = memoryCache s"
  "idb_up (snd (write_tiers mc now s)) = idb_up s"
  "ls_writable (snd (write_tiers mc now s)) = ls_writable s"
  "online (snd (write_tiers mc now s)) = online s"
  by (simp_all add: write_tiers_def split_beta dbSave_def ls_setItem_def
        trySaveToSupabase_def trySaveToNetlify_def)

lemma write_tiers_result:
  "idb_up s \<Longrightarrow> ls_writable s \<Longrightarrow> fst (write_tiers mc now s)"
  "\<not> ls_writable s \<Longrightarrow> \<not> fst (write_tiers mc now s)"
  "ls (snd (write_tiers mc now s)) =
     (if fst (write_tiers mc now s) then Some (Parses (json_clone (heap s mc))) else ls s)"
  by (simp_all add: write_tiers_def split_beta dbSave_def ls_setItem_def
        trySaveToSupabase_def trySaveToNetlify_def)

lemma write_tiers_idb:
  "idb (snd (write_tiers mc now s)) = idb s \<or> idb (snd (write_tiers mc now s)) = Some (heap s mc)"
  by (simp add: write_tiers_def split_beta dbSave_def ls_setItem_def
        trySaveToSupabase_def trySaveToNetlify_def)

lemma saveData_rejects:
  "validateDataStructure (heap s r) \<noteq> Inr True \<Longrightarrow> saveData now r s = (False, s)"
  by (auto simp: saveData_def split: sum.splits bool.splits)

lemma saveData_valid_eq:
  assumes v: "validateDataStructure (heap s r) = Inr True"
    and m: "next_backupCount (heap s r) = Inr bc"
  shows "saveData now r s =
           write_tiers (next_ref s) now
             (s\<lparr>heap := (heap s)(r := set_prop (heap s r) ''metadata'' (stamp now bc),
                   next_ref s := json_clone (set_prop (heap s r) ''metadata'' (stamp now bc))),
                next_ref := Suc (next_ref s), memoryCache := Some (next_ref s)\<rparr>)"
  using v m by (simp add: saveData_def alloc_def Let_def new_metadata_def stamp_def)

lemma saveData_valid:
  assumes v: "validateDataStructure (heap s r) = Inr True"
    and m: "next_backupCount (heap s r) = Inr bc"
  shows "heap (snd (saveData now r s)) =
           (heap s)(r := set_prop (heap s r) ''metadata'' (stamp now bc),
                    next_ref s := json_clone (set_prop (heap s r) ''metadata'' (stamp now bc)))"
    and "memoryCache (snd (saveData now r s)) = Some (next_ref s)"
    and "next_ref (snd (saveData now r s)) = Suc (next_ref s)"
    and "idb_up s \<Longrightarrow> ls_writable s \<Longrightarrow> fst (saveData now r s)"
    and "\<not> ls_writable s \<Longrightarrow> \<not> fst (saveData now r s)"
    and "ls (snd (saveData now r s)) =
           (if fst (saveData now r s)
            then Some (Parses (json_clone (set_prop (heap s r) ''metadata'' (stamp now bc))))
            else ls s)"
  unfolding saveData_valid_eq[OF v m]
  by (simp_all add: write_tiers_result json_clone_idem)

lemma saveData_unstampable:
  "next_backupCount (heap s r) = Inl e \<Longrightarrow> saveData now r s = (False, s)"
  by (auto simp: saveData_def new_metadata_def split: sum.splits bool.splits)

lemma getData_cached: "memoryCache s = Some r \<Longrightarrow> getData now s = (r, s)"
  by (simp add: getData_def)

lemma read_after_save_valid:
  assumes v: "validateDataStructure (heap s d) = Inr True"
    and m: "next_backupCount (heap s d) = Inr bc"
  shows "read_after_save now now' d s =
           json_clone (set_prop (heap s d) ''metadata'' (stamp now bc))"
  using saveData_valid(1,2)[OF v m, of now]
  by (simp add: read_after_save_def getData_cached)

lemma next_backupCount_read:
  "next_backupCount d = Inr bc \<Longrightarrow> field d ''metadata'' = Some (JObj m) \<Longrightarrow>
     map_of m ''backupCount'' = Some (JNum n) \<Longrightarrow> bc = JNum (n + 1)"
  by (cases d; cases "n = 0") (auto simp: next_backupCount_def prior_backupCount_def)

lemma next_backupCount_absent:
  "next_backupCount (JObj kv) = Inr bc \<Longrightarrow> map_of kv ''metadata'' = None \<Longrightarrow> bc = JNum 1"
  by (auto simp: next_backupCount_def prior_backupCount_def)

subsection \<open>The claims about \<^verbatim>\<open>saveData\<close> and the validator\<close>

text \<open>
  C1, as stated: the document read back right after a save equals the saved one except
  for \<^verbatim>\<open>lastModified\<close>, \<^verbatim>\<open>version\<close> and \<^verbatim>\<open>backupCount\<close>. The default document is valid
  and has a \<^verbatim>\<open>metadata.created\<close>; what is read back after saving it has none.
\<close>

theorem read_after_save_counterexample:
  "validateDataStructure (createDefaultData ''t0'') = Inr True \<and>
   \<not> equal_except_stamped
        (read_after_save ''t1'' ''t2'' 0 (holding (createDefaultData ''t0'')))
        (createDefaultData ''t0'')"
proof -
  have h: "heap (holding (createDefaultData ''t0'')) 0 = createDefaultData ''t0''"
    by (simp add: holding_def)
  have v: "validateDataStructure (heap (holding (createDefaultData ''t0'')) 0) = Inr True"
    by (simp add: h)
  have m: "next_backupCount (heap (holding (createDefaultData ''t0'')) 0) = Inr (JNum 1)"
    unfolding h by (simp add: next_backupCount_def prior_backupCount_def createDefaultData_def)
  have "\<not> equal_except_stamped
        (read_after_save ''t1'' ''t2'' 0 (holding (createDefaultData ''t0'')))
        (createDefaultData ''t0'')"
    unfolding read_after_save_valid[OF v m] h
    by (simp add: createDefaultData_def equal_except_stamped_def other_metadata_def
          stamped_fields_def stamp_def)
  then show ?thesis by simp
qed

text \<open>
  C1, amended: for a valid document whose new backup counter can be computed, what
  \<^verbatim>\<open>getData()\<close> returns right after \<^verbatim>\<open>saveData\<close> is the JSON copy of the document with
  its \<^verbatim>\<open>metadata\<close> property replaced as a whole by the stamp. Every other property is the
  JSON copy of what it was, and is what it was when the document holds no \<^verbatim>\<open>NaN\<close> and
  no infinity (the validator accepts both as stars, and the copy has \<^verbatim>\<open>null\<close> for
  them). The new \<^verbatim>\<open>metadata\<close> holds \<^verbatim>\<open>lastModified\<close>, \<^verbatim>\<open>version\<close> and \<^verbatim>\<open>backupCount\<close>
  only; the counter is the prior one plus 1 when that is a finite number, and 1 when
  the document has no \<^verbatim>\<open>metadata\<close>.
\<close>

theorem read_after_save_amended:
  assumes "validateDataStructure (heap s d) = Inr True"
    and "next_backupCount (heap s d) = Inr bc"
  shows "read_after_save now now' d s
           = json_clone (set_prop (heap s d) ''metadata'' (stamp now bc)) \<and>
         without_metadata (read_after_save now now' d s)
           = map (\<lambda>p. (fst p, json_clone (snd p))) (without_metadata (heap s d)) \<and>
         (json_clone (heap s d) = heap s d \<longrightarrow>
            without_metadata (read_after_save now now' d s) = without_metadata (heap s d)) \<and>
         field (read_after_save now now' d s) ''metadata'' = Some (stamp now (json_clone bc)) \<and>
         (\<forall>m n. field (heap s d) ''metadata'' = Some (JObj m) \<and>
                map_of m ''backupCount'' = Some (JNum n) \<longrightarrow> bc = JNum (n + 1)) \<and>
         (field (heap s d) ''metadata'' = None \<longrightarrow> bc = JNum 1)"
proof -
  obtain kv where kv: "heap s d = JObj kv" using validate_is_obj[OF assms(1)] by blast
  have eq: "read_after_save now now' d s
              = json_clone (set_prop (heap s d) ''metadata'' (stamp now bc))"
    using assms by (rule read_after_save_valid)
  have rest: "without_metadata (json_clone (set_prop (heap s d) ''metadata'' (stamp now bc)))
                = map (\<lambda>p. (fst p, json_clone (snd p))) (without_metadata (heap s d))"
    by (simp add: kv without_metadata_def filter_map comp_def
          filter_assign_own[of "''metadata''" "stamp now bc" kv, symmetric])
  have stable: "json_clone (heap s d) = heap s d \<longrightarrow>
      map (\<lambda>p. (fst p, json_clone (snd p))) (without_metadata (heap s d))
        = without_metadata (heap s d)"
  proof
    assume "json_clone (heap s d) = heap s d"
    then have "map (\<lambda>p. (fst p, json_clone (snd p))) kv = kv" by (simp add: kv)
    then have "without_metadata (json_clone (heap s d)) = without_metadata (heap s d)"
      by (simp add: kv)
    then show "map (\<lambda>p. (fst p, json_clone (snd p))) (without_metadata (heap s d))
        = without_metadata (heap s d)"
      by (simp add: kv without_metadata_def filter_map comp_def)
  qed
  have meta: "field (json_clone (set_prop (heap s d) ''metadata'' (stamp now bc))) ''metadata''
                = Some (stamp now (json_clone bc))"
    by (simp add: kv map_of_map_snd map_of_assign_own json_clone_stamp)
  have num: "\<forall>m n. field (heap s d) ''metadata'' = Some (JObj m) \<and>
                map_of m ''backupCount'' = Some (JNum n) \<longrightarrow> bc = JNum (n + 1)"
    using next_backupCount_read[OF assms(2)] by blast
  have none: "field (heap s d) ''metadata'' = None \<longrightarrow> bc = JNum 1"
    using next_backupCount_absent[of kv bc] assms(2) by (simp add: kv)
  show ?thesis unfolding eq using rest stable meta num none by simp
qed

theorem read_after_save_amended_witness:
  "validateDataStructure (heap (holding doc_saved) 0) = Inr True \<and>
   next_backupCount (heap (holding doc_saved) 0) = Inr (JNum 5) \<and>
   field (heap (holding doc_saved) 0) ''metadata''
     = Some (JObj [(''version'', JStr ''2.0''), (''created'', JStr ''t0''),
                   (''lastModified'', JStr ''t0''), (''backupCount'', JNum 4)]) \<and>
   json_clone (heap (holding doc_saved) 0) = heap (holding doc_saved) 0 \<and>
   field (read_after_save ''t1'' ''t2'' 0 (holding doc_saved)) ''metadata''
     = Some (stamp ''t1'' (JNum 5)) \<and>
   without_metadata (read_after_save ''t1'' ''t2'' 0 (holding doc_saved))
     = without_metadata (heap (holding doc_saved) 0)"
proof -
  have h: "heap (holding doc_saved) 0 = doc_saved"
    by (simp add: holding_def)
  have v: "validateDataStructure (heap (holding doc_saved) 0) = Inr True"
    unfolding h by (simp add: doc_saved_def validateDataStructure_def requiredProps_def)
  have m: "next_backupCount (heap (holding doc_saved) 0) = Inr (JNum 5)"
    unfolding h by (simp add: next_backupCount_def prior_backupCount_def doc_saved_def)
  have f: "field (heap (holding doc_saved) 0) ''metadata''
     = Some (JObj [(''version'', JStr ''2.0''), (''created'', JStr ''t0''),
                   (''lastModified'', JStr ''t0''), (''backupCount'', JNum 4)])"
    unfolding h by (simp add: doc_saved_def)
  have c: "json_clone (heap (holding doc_saved) 0) = heap (holding doc_saved) 0"
    unfolding h by (simp add: doc_saved_def)
  note r = read_after_save_amended[OF v m, of "''t1''" "''t2''"]
  have r3: "without_metadata (read_after_save ''t1'' ''t2'' 0 (holding doc_saved))
     = without_metadata (heap (holding doc_saved) 0)"
    using r c by blast
  have r4: "field (read_after_save ''t1'' ''t2'' 0 (holding doc_saved)) ''metadata''
     = Some (stamp ''t1'' (json_clone (JNum 5)))"
    using r by blast
  have j: "json_clone (JNum 5) = JNum 5" by simp
  show ?thesis using v m f c r3 r4 unfolding j by blast
qed

text \<open>
  C2, as stated: the validator returns true exactly for the candidates the contract
  describes, whose students have a numeric \<^verbatim>\<open>stars\<close> that is at least 0. The test in
  the code is \<^verbatim>\<open>student.stars < 0\<close>, which is false of \<^verbatim>\<open>NaN\<close>: a document whose only
  student has \<^verbatim>\<open>NaN\<close> stars passes, and \<^verbatim>\<open>NaN\<close> is not at least 0.
\<close>

theorem validate_nan_counterexample:
  "validateDataStructure doc_nan = Inr True \<and> \<not> spec_validate doc_nan"
  by (simp add: doc_nan_def validateDataStructure_def requiredProps_def class_ok_def
        student_ok_def spec_validate_def spec_class_def spec_student_def)

text \<open>
  C2, amended. The validator returns true if and only if the candidate is an object
  (not an array) without an own property \<^verbatim>\<open>hasOwnProperty\<close>, whose \<^verbatim>\<open>classes\<close>,
  \<^verbatim>\<open>teachers\<close> and \<^verbatim>\<open>settings\<close> are objects or arrays, every class has a \<^verbatim>\<open>students\<close>
  object or array, every entry of which has a non-empty string \<^verbatim>\<open>name\<close> and a \<^verbatim>\<open>stars\<close>
  that is a number not below 0 (\<^verbatim>\<open>NaN\<close> and \<^verbatim>\<open>Infinity\<close> included), and every teacher's
  value is a string. It throws a TypeError if and only if the candidate is an object
  that has an own \<^verbatim>\<open>hasOwnProperty\<close>, or whose three properties are objects or arrays
  and whose first class not accepted is \<^verbatim>\<open>null\<close> or has a \<^verbatim>\<open>students\<close> object or array
  whose first entry not accepted is \<^verbatim>\<open>null\<close>. In every other case it returns false.
  This is stated for candidates in which no student has a truthy name that is not a
  string and none of \<^verbatim>\<open>classes\<close>, \<^verbatim>\<open>teachers\<close>, \<^verbatim>\<open>settings\<close> is \<^verbatim>\<open>null\<close>.
\<close>

theorem validate_iff_amended:
  assumes "names_typed candidate" and "no_null_props candidate"
  shows "(validateDataStructure candidate = Inr True) = valid_amended candidate \<and>
         (validateDataStructure candidate = Inl TypeError) = throws_amended candidate \<and>
         (validateDataStructure candidate = Inr False)
            = (\<not> valid_amended candidate \<and> \<not> throws_amended candidate)"
  using validate_eq[OF assms] throws_not_valid[of candidate] by auto

theorem validate_iff_amended_witness:
  "names_typed doc_math \<and> no_null_props doc_math \<and>
   validateDataStructure doc_math = Inr True \<and> valid_amended doc_math \<and>
   names_typed doc_null_class \<and> no_null_props doc_null_class \<and>
   validateDataStructure doc_null_class = Inl TypeError \<and> throws_amended doc_null_class \<and>
   names_typed doc_null_class_late \<and> no_null_props doc_null_class_late \<and>
   validateDataStructure doc_null_class_late = Inr False \<and>
   \<not> throws_amended doc_null_class_late \<and>
   names_typed doc_class_array \<and> no_null_props doc_class_array \<and>
   validateDataStructure doc_class_array = Inr False \<and> \<not> valid_amended doc_class_array"
proof -
  have a: "names_typed doc_math" "no_null_props doc_math"
    by (simp_all add: names_typed_def no_null_props_def doc_math_def name_typed_def)
  have b: "names_typed doc_null_class" "no_null_props doc_null_class"
    by (simp_all add: names_typed_def no_null_props_def doc_null_class_def name_typed_def)
  have c: "names_typed doc_null_class_late" "no_null_props doc_null_class_late"
    by (simp_all add: names_typed_def no_null_props_def doc_null_class_late_def name_typed_def)
  have d: "names_typed doc_class_array" "no_null_props doc_class_array"
    by (simp_all add: names_typed_def no_null_props_def doc_class_array_def name_typed_def)
  have va: "validateDataStructure doc_math = Inr True"
    by (simp add: doc_math_def validateDataStructure_def requiredProps_def class_ok_def
          student_ok_def)
  have vb: "validateDataStructure doc_null_class = Inl TypeError"
    by (simp add: doc_null_class_def validateDataStructure_def requiredProps_def class_ok_def)
  have vc: "validateDataStructure doc_null_class_late = Inr False"
    by (simp add: doc_null_class_late_def validateDataStructure_def requiredProps_def
          class_ok_def)
  have vd: "validateDataStructure doc_class_array = Inr False"
    by (simp add: doc_class_array_def validateDataStructure_def requiredProps_def
          class_ok_def arr_entries_def dec.simps digit_char_def)
  show ?thesis
    using a b c d va vb vc vd
      validate_iff_amended[OF a] validate_iff_amended[OF b]
      validate_iff_amended[OF c] validate_iff_amended[OF d]
    by simp
qed

text \<open>
  C3: when the validator does not return true for the document (it returns false or
  throws), \<^verbatim>\<open>saveData\<close> returns false and the state is the one before the call: the
  in-memory copy, IndexedDB, localStorage, both remote stores, and no request was sent.
\<close>

theorem saveData_invalid_no_effect:
  assumes "validateDataStructure (heap s d) \<noteq> Inr True"
  shows "saveData now d s = (False, s)"
  using assms by (rule saveData_rejects)

theorem saveData_invalid_no_effect_witness:
  "validateDataStructure (heap (holding doc_classes_only) 0) \<noteq> Inr True \<and>
   saveData ''t1'' 0 (holding doc_classes_only) = (False, holding doc_classes_only)"
proof -
  have h: "validateDataStructure (heap (holding doc_classes_only) 0) \<noteq> Inr True"
    by (simp add: holding_def doc_classes_only_def validateDataStructure_def requiredProps_def)
  show ?thesis using h saveData_invalid_no_effect[OF h] by simp
qed

text \<open>
  C4, as stated: \<^verbatim>\<open>saveData\<close> returns true for every valid document. Offline and with
  IndexedDB failing, both remote writes fail, \<^verbatim>\<open>dbSave\<close> rejects, and the handler of
  \<^verbatim>\<open>saveData\<close> returns false for a valid document.
\<close>

theorem saveData_local_failure_counterexample:
  "validateDataStructure (heap ((holding doc_math)\<lparr>online := False, idb_up := False\<rparr>) 0) = Inr True \<and>
   \<not> fst (saveData ''t1'' 0 ((holding doc_math)\<lparr>online := False, idb_up := False\<rparr>))"
proof -
  have h: "heap ((holding doc_math)\<lparr>online := False, idb_up := False\<rparr>) 0 = doc_math"
    by (simp add: holding_def)
  have v: "validateDataStructure doc_math = Inr True"
    by (simp add: doc_math_def validateDataStructure_def requiredProps_def class_ok_def
          student_ok_def)
  have m: "next_backupCount doc_math = Inr (JNum 1)"
    by (simp add: next_backupCount_def prior_backupCount_def doc_math_def)
  show ?thesis
    unfolding h using v
    by (simp add: saveData_valid_eq[of _ 0 "JNum 1"] h m write_tiers_def trySaveToSupabase_def
          trySaveToNetlify_def trySaveTo_def fetch_def Let_def dbSave_def holding_def
          fresh_state_def)
qed

text \<open>
  C4, amended: for a valid document whose new backup counter can be computed,
  \<^verbatim>\<open>saveData\<close> returns true whatever the two remote tiers do, provided IndexedDB takes
  the write and \<^verbatim>\<open>localStorage.setItem\<close> does not throw; and it returns true only for a
  valid document and only when \<^verbatim>\<open>localStorage.setItem\<close> did not throw.
\<close>

theorem saveData_true_amended:
  "(validateDataStructure (heap s d) = Inr True \<and> next_backupCount (heap s d) = Inr bc \<and>
      idb_up s \<and> ls_writable s \<longrightarrow> fst (saveData now d s)) \<and>
   (fst (saveData now d s) \<longrightarrow>
      validateDataStructure (heap s d) = Inr True \<and> ls_writable s)"
proof (intro conjI impI)
  assume "validateDataStructure (heap s d) = Inr True \<and> next_backupCount (heap s d) = Inr bc \<and>
      idb_up s \<and> ls_writable s"
  then show "fst (saveData now d s)" using saveData_valid(4) by blast
next
  assume t: "fst (saveData now d s)"
  show "validateDataStructure (heap s d) = Inr True"
    using t saveData_rejects[of s d now] by (metis fst_conv)
  then have v: "validateDataStructure (heap s d) = Inr True" .
  show "ls_writable s"
  proof (cases "next_backupCount (heap s d)")
    case (Inl e)
    then show ?thesis using t saveData_unstampable[of s d e now] by simp
  next
    case (Inr bc')
    then show ?thesis using t saveData_valid(5)[OF v Inr, of now] by blast
  qed
qed

theorem saveData_true_amended_witness:
  "validateDataStructure (heap ((holding doc_math)\<lparr>online := False\<rparr>) 0) = Inr True \<and>
   next_backupCount (heap ((holding doc_math)\<lparr>online := False\<rparr>) 0) = Inr (JNum 1) \<and>
   idb_up ((holding doc_math)\<lparr>online := False\<rparr>) \<and>
   ls_writable ((holding doc_math)\<lparr>online := False\<rparr>) \<and>
   fst (saveData ''t1'' 0 ((holding doc_math)\<lparr>online := False\<rparr>))"
proof -
  have h: "heap ((holding doc_math)\<lparr>online := False\<rparr>) 0 = doc_math"
    by (simp add: holding_def)
  have v: "validateDataStructure (heap ((holding doc_math)\<lparr>online := False\<rparr>) 0) = Inr True"
    unfolding h
    by (simp add: doc_math_def validateDataStructure_def requiredProps_def class_ok_def
          student_ok_def)
  have m: "next_backupCount (heap ((holding doc_math)\<lparr>online := False\<rparr>) 0) = Inr (JNum 1)"
    unfolding h by (simp add: next_backupCount_def prior_backupCount_def doc_math_def)
  have u: "idb_up ((holding doc_math)\<lparr>online := False\<rparr>) \<and>
           ls_writable ((holding doc_math)\<lparr>online := False\<rparr>)"
    by (simp add: holding_def fresh_state_def)
  show ?thesis
    using v m u saveData_true_amended[of "(holding doc_math)\<lparr>online := False\<rparr>" 0 "JNum 1" "''t1''"]
    by blast
qed

subsection \<open>Which tiers a save reaches\<close>

lemma lightweight_accepted: "lightweight_ok p = accepted_body p"
  by (cases p) (auto simp: lightweight_ok_def accepted_body_def split: option.splits)

lemma valid_classes:
  assumes "validateDataStructure (JObj kv) = Inr True"
  shows "\<exists>c. map_of kv ''classes'' = Some c \<and> typeof_object c"
proof -
  have "validate_required (JObj kv) requiredProps = Inr True"
    using assms by (auto simp: validateDataStructure_def split: sum.splits bool.splits)
  then have "typeof_object_opt (map_of kv ''classes'')"
    by (simp add: validate_required_obj split: if_splits)
  then show ?thesis by (cases "map_of kv ''classes''") simp_all
qed

lemma json_clone_typeof:
  "typeof_object c \<Longrightarrow> c \<noteq> JNull \<Longrightarrow> truthy (json_clone c)"
  by (cases c) simp_all

lemma valid_accepted:
  assumes "validateDataStructure d = Inr True" and "field d ''classes'' \<noteq> Some JNull"
  shows "accepted_body (json_clone (set_prop d ''metadata'' md))"
proof -
  obtain kv where kv: "d = JObj kv" using validate_is_obj[OF assms(1)] by blast
  obtain c where c: "map_of kv ''classes'' = Some c" "typeof_object c"
    using valid_classes assms(1) kv by blast
  have "c \<noteq> JNull" using assms(2) c(1) by (simp add: kv)
  then have "truthy (json_clone c)" using c(2) json_clone_typeof by blast
  then show ?thesis
    by (simp add: kv accepted_body_def map_of_map_snd map_of_assign_own c(1))
qed

lemma write_tiers_offline:
  "\<not> online s \<Longrightarrow> idb_up s \<Longrightarrow> idb (snd (write_tiers mc now s)) = Some (heap s mc)"
  "\<not> online s \<Longrightarrow>
     requests (snd (write_tiers mc now s)) = requests s @ [(Supabase, PUT), (Netlify, PUT)]"
  "\<not> online s \<Longrightarrow> sb_row (snd (write_tiers mc now s)) = sb_row s"
  "\<not> online s \<Longrightarrow> blob (snd (write_tiers mc now s)) = blob s"
  by (simp_all add: write_tiers_def split_beta dbSave_def ls_setItem_def
        trySaveToSupabase_def trySaveToNetlify_def trySaveTo_def fetch_def Let_def)

lemma write_tiers_primary:
  assumes "online s" and "sb_configured s" and "\<not> sb_error s"
    and "accepted_body (json_clone (heap s mc))"
  shows "sb_row (snd (write_tiers mc now s)) = Some (json_clone (heap s mc))"
    and "requests (snd (write_tiers mc now s)) = requests s @ [(Supabase, PUT)]"
    and "idb (snd (write_tiers mc now s)) = idb s"
    and "blob (snd (write_tiers mc now s)) = blob s"
  using assms
  by (simp_all add: write_tiers_def split_beta dbSave_def ls_setItem_def
        trySaveToSupabase_def trySaveTo_def fetch_def Let_def supabase_handler_def
        lightweight_accepted json_def res_ok_def json_clone_idem)

lemma next_backupCount_toString:
  "field d ''metadata'' = Some (JObj m) \<Longrightarrow> map_of m ''backupCount'' = Some (JObj c) \<Longrightarrow>
     map_of c ''toString'' \<noteq> None \<Longrightarrow> next_backupCount d = Inl TypeError"
  by (cases d) (auto simp: next_backupCount_def prior_backupCount_def)

subsection \<open>The argument of \<^verbatim>\<open>saveData\<close>\<close>

text \<open>
  C10, as stated: for every valid document, \<^verbatim>\<open>saveData\<close> replaces the argument's
  \<^verbatim>\<open>metadata\<close>. A document whose \<^verbatim>\<open>metadata.backupCount\<close> is an object with an own
  property \<^verbatim>\<open>toString\<close> passes the validator, which does not look at \<^verbatim>\<open>metadata\<close>; the
  sum in the new \<^verbatim>\<open>metadata\<close> throws, \<^verbatim>\<open>saveData\<close> returns \<^verbatim>\<open>false\<close>, and the argument
  has the \<^verbatim>\<open>metadata\<close> it had.
\<close>

theorem saveData_keeps_metadata_counterexample:
  "validateDataStructure (heap (holding doc_badcounter) 0) = Inr True \<and>
   saveData ''t1'' 0 (holding doc_badcounter) = (False, holding doc_badcounter) \<and>
   field (heap (snd (saveData ''t1'' 0 (holding doc_badcounter))) 0) ''metadata''
     = Some (JObj [(''backupCount'', JObj [(''toString'', JNum 1)])])"
proof -
  have h: "heap (holding doc_badcounter) 0 = doc_badcounter"
    by (simp add: holding_def)
  have v: "validateDataStructure (heap (holding doc_badcounter) 0) = Inr True"
    unfolding h by (simp add: doc_badcounter_def validateDataStructure_def requiredProps_def)
  have m: "next_backupCount (heap (holding doc_badcounter) 0) = Inl TypeError"
    unfolding h by (simp add: next_backupCount_def prior_backupCount_def doc_badcounter_def)
  have s: "saveData ''t1'' 0 (holding doc_badcounter) = (False, holding doc_badcounter)"
    using m by (rule saveData_unstampable)
  have f: "field (heap (holding doc_badcounter) 0) ''metadata''
     = Some (JObj [(''backupCount'', JObj [(''toString'', JNum 1)])])"
    unfolding h by (simp add: doc_badcounter_def)
  show ?thesis using v f unfolding s by simp
qed

text \<open>
  C10, amended. For a valid document that the caller holds: when the sum
  \<^verbatim>\<open>(data.metadata?.backupCount || 0) + 1\<close> throws, as it does for a counter that is an
  object with an own \<^verbatim>\<open>toString\<close>, \<^verbatim>\<open>saveData\<close> returns \<^verbatim>\<open>false\<close> and changes nothing.
  Otherwise, \<open>bc\<close> being the sum, \<^verbatim>\<open>saveData\<close> changes the object it was given: its
  \<^verbatim>\<open>metadata\<close> becomes a new object with the fields \<^verbatim>\<open>lastModified\<close>, \<^verbatim>\<open>version\<close>,
  \<^verbatim>\<open>backupCount\<close> and no other (so \<^verbatim>\<open>created\<close> is gone), and this before the copy is made:
  the authoritative copy is another object, the JSON copy of the changed argument,
  whose \<^verbatim>\<open>metadata\<close> has these three fields only; later writes to the argument do not
  reach it. That copy is what localStorage receives when \<^verbatim>\<open>saveData\<close> returns true,
  what IndexedDB receives when the page is offline and IndexedDB works, and what the
  primary tier stores when it is reached, configured and working and \<^verbatim>\<open>classes\<close> is not
  \<^verbatim>\<open>null\<close>.
\<close>

theorem saveData_replaces_metadata:
  assumes "validateDataStructure (heap s d) = Inr True" and "d < next_ref s"
  shows "(\<forall>e. next_backupCount (heap s d) = Inl e \<longrightarrow> saveData now d s = (False, s)) \<and>
         (\<forall>m c. field (heap s d) ''metadata'' = Some (JObj m) \<and>
                map_of m ''backupCount'' = Some (JObj c) \<and> map_of c ''toString'' \<noteq> None
                \<longrightarrow> saveData now d s = (False, s)) \<and>
         (\<forall>bc. next_backupCount (heap s d) = Inr bc \<longrightarrow>
            heap (snd (saveData now d s)) d = set_prop (heap s d) ''metadata'' (stamp now bc) \<and>
            field (heap (snd (saveData now d s)) d) ''metadata'' = Some (stamp now bc) \<and>
            map fst (own_entries (stamp now bc)) = stamped_fields \<and>
            field (stamp now bc) ''created'' = None \<and>
            without_metadata (heap (snd (saveData now d s)) d) = without_metadata (heap s d) \<and>
            authoritative (snd (saveData now d s))
              = Some (json_clone (heap (snd (saveData now d s)) d)) \<and>
            field (json_clone (heap (snd (saveData now d s)) d)) ''metadata''
              = Some (stamp now (json_clone bc)) \<and>
            memoryCache (snd (saveData now d s)) \<noteq> Some d \<and>
            authoritative (caller_writes d v (snd (saveData now d s)))
              = authoritative (snd (saveData now d s)) \<and>
            (fst (saveData now d s) \<longrightarrow>
               ls (snd (saveData now d s))
                 = Some (Parses (json_clone (heap (snd (saveData now d s)) d)))) \<and>
            (\<not> online s \<and> idb_up s \<longrightarrow>
               idb (snd (saveData now d s))
                 = Some (json_clone (heap (snd (saveData now d s)) d))) \<and>
            (online s \<and> sb_configured s \<and> \<not> sb_error s \<and>
             field (heap s d) ''classes'' \<noteq> Some JNull \<longrightarrow>
               sb_row (snd (saveData now d s))
                 = Some (json_clone (heap (snd (saveData now d s)) d))))"
proof -
  obtain kv where kv: "heap s d = JObj kv" using validate_is_obj[OF assms(1)] by blast
  have ne: "next_ref s \<noteq> d" using assms(2) by simp
  have a: "\<forall>e. next_backupCount (heap s d) = Inl e \<longrightarrow> saveData now d s = (False, s)"
    using saveData_unstampable by blast
  have b: "\<forall>m c. field (heap s d) ''metadata'' = Some (JObj m) \<and>
                map_of m ''backupCount'' = Some (JObj c) \<and> map_of c ''toString'' \<noteq> None
                \<longrightarrow> saveData now d s = (False, s)"
    using next_backupCount_toString saveData_unstampable by blast
  have c: "heap (snd (saveData now d s)) d = set_prop (heap s d) ''metadata'' (stamp now bc) \<and>
            field (heap (snd (saveData now d s)) d) ''metadata'' = Some (stamp now bc) \<and>
            map fst (own_entries (stamp now bc)) = stamped_fields \<and>
            field (stamp now bc) ''created'' = None \<and>
            without_metadata (heap (snd (saveData now d s)) d) = without_metadata (heap s d) \<and>
            authoritative (snd (saveData now d s))
              = Some (json_clone (heap (snd (saveData now d s)) d)) \<and>
            field (json_clone (heap (snd (saveData now d s)) d)) ''metadata''
              = Some (stamp now (json_clone bc)) \<and>
            memoryCache (snd (saveData now d s)) \<noteq> Some d \<and>
            authoritative (caller_writes d v (snd (saveData now d s)))
              = authoritative (snd (saveData now d s)) \<and>
            (fst (saveData now d s) \<longrightarrow>
               ls (snd (saveData now d s))
                 = Some (Parses (json_clone (heap (snd (saveData now d s)) d)))) \<and>
            (\<not> online s \<and> idb_up s \<longrightarrow>
               idb (snd (saveData now d s))
                 = Some (json_clone (heap (snd (saveData now d s)) d))) \<and>
            (online s \<and> sb_configured s \<and> \<not> sb_error s \<and>
             field (heap s d) ''classes'' \<noteq> Some JNull \<longrightarrow>
               sb_row (snd (saveData now d s))
                 = Some (json_clone (heap (snd (saveData now d s)) d)))"
    if m: "next_backupCount (heap s d) = Inr bc" for bc
  proof -
    define arg where "arg = set_prop (heap s d) ''metadata'' (stamp now bc)"
    define s3 where "s3 = s\<lparr>heap := (heap s)(d := arg, next_ref s := json_clone arg),
                next_ref := Suc (next_ref s), memoryCache := Some (next_ref s)\<rparr>"
    have e: "saveData now d s = write_tiers (next_ref s) now s3"
      unfolding s3_def arg_def by (rule saveData_valid_eq[OF assms(1) m])
    note sv = saveData_valid[OF assms(1) m, of now, folded arg_def]
    have h3: "heap s3 (next_ref s) = json_clone arg" by (simp add: s3_def)
    have c1: "heap (snd (saveData now d s)) d = arg"
      using sv(1) ne by simp
    have c2: "field arg ''metadata'' = Some (stamp now bc)"
      by (simp add: arg_def kv map_of_assign_own)
    have c3: "map fst (own_entries (stamp now bc)) = stamped_fields"
      by (simp add: stamp_def stamped_fields_def)
    have c4: "field (stamp now bc) ''created'' = None"
      by (simp add: stamp_def)
    have c5: "without_metadata arg = without_metadata (heap s d)"
      by (simp add: arg_def kv without_metadata_def filter_assign_own)
    have c6: "authoritative (snd (saveData now d s)) = Some (json_clone arg)"
      using sv(1,2) by (simp add: authoritative_def)
    have c7: "field (json_clone arg) ''metadata'' = Some (stamp now (json_clone bc))"
      by (simp add: arg_def kv map_of_map_snd map_of_assign_own json_clone_stamp)
    have c8: "memoryCache (snd (saveData now d s)) \<noteq> Some d"
      using sv(2) ne by simp
    have c9: "authoritative (caller_writes d v (snd (saveData now d s)))
              = authoritative (snd (saveData now d s))"
      using sv(1,2) ne by (simp add: authoritative_def caller_writes_def)
    have c10: "fst (saveData now d s) \<longrightarrow>
               ls (snd (saveData now d s)) = Some (Parses (json_clone arg))"
      using sv(6) by simp
    have c11: "\<not> online s \<and> idb_up s \<longrightarrow> idb (snd (saveData now d s)) = Some (json_clone arg)"
      unfolding e using write_tiers_offline(1)[of s3 "next_ref s" now] h3
      by (simp add: s3_def)
    have c12: "online s \<and> sb_configured s \<and> \<not> sb_error s \<and>
             field (heap s d) ''classes'' \<noteq> Some JNull \<longrightarrow>
               sb_row (snd (saveData now d s)) = Some (json_clone arg)"
    proof
      assume p: "online s \<and> sb_configured s \<and> \<not> sb_error s \<and>
             field (heap s d) ''classes'' \<noteq> Some JNull"
      have "accepted_body (json_clone arg)"
        unfolding arg_def using assms(1) p by (simp add: valid_accepted)
      then have ab: "accepted_body (json_clone (heap s3 (next_ref s)))"
        by (simp add: h3 json_clone_idem)
      have "sb_row (snd (write_tiers (next_ref s) now s3)) = Some (json_clone (heap s3 (next_ref s)))"
        using p ab by (intro write_tiers_primary(1)) (simp_all add: s3_def)
      then show "sb_row (snd (saveData now d s)) = Some (json_clone arg)"
        unfolding e by (simp add: h3 json_clone_idem)
    qed
    show ?thesis
      unfolding c1 using arg_def c2 c3 c4 c5 c6 c7 c8 c9 c10 c11 c12 by blast
  qed
  show ?thesis using a b c by blast
qed

theorem saveData_replaces_metadata_witness:
  "validateDataStructure (heap (holding doc_saved) 0) = Inr True \<and>
   0 < next_ref (holding doc_saved) \<and>
   next_backupCount (heap (holding doc_saved) 0) = Inr (JNum 5) \<and>
   field (heap (holding doc_saved) 0) ''metadata'' \<noteq> Some (stamp ''t1'' (JNum 5)) \<and>
   field (heap (snd (saveData ''t1'' 0 (holding doc_saved))) 0) ''metadata''
     = Some (stamp ''t1'' (JNum 5)) \<and>
   field (stamp ''t1'' (JNum 5)) ''created'' = None \<and>
   online (holding doc_saved) \<and> sb_configured (holding doc_saved) \<and>
   \<not> sb_error (holding doc_saved) \<and>
   field (heap (holding doc_saved) 0) ''classes'' \<noteq> Some JNull \<and>
   sb_row (snd (saveData ''t1'' 0 (holding doc_saved)))
     = Some (json_clone (heap (snd (saveData ''t1'' 0 (holding doc_saved))) 0))"
proof -
  have h: "heap (holding doc_saved) 0 = doc_saved"
    by (simp add: holding_def)
  have v: "validateDataStructure (heap (holding doc_saved) 0) = Inr True"
    unfolding h by (simp add: doc_saved_def validateDataStructure_def requiredProps_def)
  have n: "0 < next_ref (holding doc_saved)"
    by (simp add: holding_def)
  have m: "next_backupCount (heap (holding doc_saved) 0) = Inr (JNum 5)"
    unfolding h by (simp add: next_backupCount_def prior_backupCount_def doc_saved_def)
  have o: "field (heap (holding doc_saved) 0) ''metadata'' \<noteq> Some (stamp ''t1'' (JNum 5))"
    unfolding h by (simp add: doc_saved_def stamp_def)
  have t: "online (holding doc_saved)" "sb_configured (holding doc_saved)"
    "\<not> sb_error (holding doc_saved)"
    by (simp_all add: holding_def fresh_state_def)
  have k: "field (heap (holding doc_saved) 0) ''classes'' \<noteq> Some JNull"
    unfolding h by (simp add: doc_saved_def)
  show ?thesis
    using v n m o t k saveData_replaces_metadata[OF v n, of "''t1''"] by blast
qed

subsection \<open>Startup, aliasing and the validator as a gate\<close>

lemma adopt_and_mirror_ok:
  "idb_up s \<Longrightarrow> ls_writable s \<Longrightarrow>
     adopt_and_mirror d s =
       (True, s\<lparr>heap := (heap s)(next_ref s := d), next_ref := Suc (next_ref s),
                memoryCache := Some (next_ref s), idb := Some d,
                ls := Some (Parses (json_clone d))\<rparr>)"
  by (simp add: adopt_and_mirror_def alloc_def dbInit_def dbSave_def ls_setItem_def)

text \<open>
  C5, as stated: a valid document from the primary tier is adopted and the legacy tier
  is never consulted. With IndexedDB failing, \<^verbatim>\<open>dbInit\<close> rejects inside the first
  \<^verbatim>\<open>try\<close>, its \<^verbatim>\<open>catch\<close> goes on to the legacy tier, and the legacy document replaces
  the primary one in memory.
\<close>

theorem primary_tier_counterexample:
  "fst (tryLoadFromSupabase ''t1'' two_tiers_no_idb) = Some doc_math \<and>
   (Netlify, GET) \<in> set (requests (snd (initializeDataStorage ''t1'' two_tiers_no_idb))) \<and>
   authoritative (snd (initializeDataStorage ''t1'' two_tiers_no_idb)) = Some doc_art \<and>
   doc_art \<noteq> doc_math"
  by (simp add: two_tiers_no_idb_def fresh_state_def initializeDataStorage_def
        tryLoadFromSupabase_def tryLoadFromNetlify_def tryLoadFrom_def fetch_def Let_def
        supabase_handler_def netlify_handler_def json_def res_ok_def adopt_and_mirror_def alloc_def
        dbInit_def load_local_def authoritative_def
        doc_math_def doc_art_def validateDataStructure_def requiredProps_def class_ok_def
        student_ok_def)

text \<open>
  C5, amended: if the primary tier returns a document (one that has passed validation)
  and the two local stores take their writes, that document becomes the authoritative
  copy, it is written to IndexedDB and to localStorage, and the only request sent is
  the one to the primary tier, whatever the legacy tier holds.
\<close>

theorem primary_tier_amended:
  assumes "fst (tryLoadFromSupabase now s) = Some d" and "idb_up s" and "ls_writable s"
  shows "fst (initializeDataStorage now s) = None \<and>
         validateDataStructure d = Inr True \<and>
         authoritative (snd (initializeDataStorage now s)) = Some d \<and>
         idb (snd (initializeDataStorage now s)) = Some d \<and>
         ls (snd (initializeDataStorage now s)) = Some (Parses d) \<and>
         requests (snd (initializeDataStorage now s)) = requests s @ [(Supabase, GET)]"
proof -
  obtain s1 where l: "tryLoadFrom Supabase now s = (Some d, s1)"
    using assms(1) by (cases "tryLoadFrom Supabase now s") (simp add: tryLoadFromSupabase_def)
  have s1: "s1 = snd (tryLoadFrom Supabase now s)" using l by simp
  have up: "idb_up s1" "ls_writable s1" using assms(2,3) by (simp_all add: s1)
  have v: "validateDataStructure d = Inr True"
    using assms(1) tryLoadFrom_valid by (simp add: tryLoadFromSupabase_def)
  have cp: "json_clone d = d"
    using assms(1) tryLoadFrom_copied by (simp add: tryLoadFromSupabase_def)
  have "initializeDataStorage now s =
          (None, s1\<lparr>heap := (heap s1)(next_ref s1 := d), next_ref := Suc (next_ref s1),
                    memoryCache := Some (next_ref s1), idb := Some d, ls := Some (Parses d)\<rparr>)"
    by (simp add: initializeDataStorage_def tryLoadFromSupabase_def l adopt_and_mirror_ok[OF up] cp)
  then show ?thesis using v by (simp add: authoritative_def s1)
qed

theorem primary_tier_amended_witness:
  "fst (tryLoadFromSupabase ''t1'' (fresh_state\<lparr>sb_row := Some doc_math, blob := Some doc_art\<rparr>))
     = Some doc_math \<and>
   idb_up (fresh_state\<lparr>sb_row := Some doc_math, blob := Some doc_art\<rparr>) \<and>
   ls_writable (fresh_state\<lparr>sb_row := Some doc_math, blob := Some doc_art\<rparr>) \<and>
   authoritative (snd (initializeDataStorage ''t1''
      (fresh_state\<lparr>sb_row := Some doc_math, blob := Some doc_art\<rparr>))) = Some doc_math \<and>
   requests (snd (initializeDataStorage ''t1''
      (fresh_state\<lparr>sb_row := Some doc_math, blob := Some doc_art\<rparr>))) = [(Supabase, GET)]"
proof -
  have l: "fst (tryLoadFromSupabase ''t1'' (fresh_state\<lparr>sb_row := Some doc_math, blob := Some doc_art\<rparr>))
     = Some doc_math"
    by (simp add: fresh_state_def tryLoadFromSupabase_def tryLoadFrom_def fetch_def Let_def
        supabase_handler_def json_def res_ok_def doc_math_def validateDataStructure_def requiredProps_def
        class_ok_def student_ok_def)
  have u: "idb_up (fresh_state\<lparr>sb_row := Some doc_math, blob := Some doc_art\<rparr>)"
    by (simp add: fresh_state_def)
  have w: "ls_writable (fresh_state\<lparr>sb_row := Some doc_math, blob := Some doc_art\<rparr>)"
    by (simp add: fresh_state_def)
  have r: "requests (fresh_state\<lparr>sb_row := Some doc_math, blob := Some doc_art\<rparr>) = []"
    by (simp add: fresh_state_def)
  show ?thesis using l u w primary_tier_amended[OF l u w] by (simp add: r)
qed

lemma tryLoadFrom_parts:
  "snd (tryLoadFrom ep now s) = snd (fetch ep GET None now s)"
  "fst (tryLoadFrom ep now s) =
     (case fst (fetch ep GET None now s) of
        None \<Rightarrow> None
      | Some res \<Rightarrow>
          if res_ok res \<and> validateDataStructure (snd res) = Inr True then Some (snd res) else None)"
  by (auto simp: tryLoadFrom_def split: prod.splits option.splits sum.splits bool.splits)

lemma netlify_get:
  "fst (netlify_handler GET b now s) =
     (if blob_error s then json 500 (error_body ''error'')
      else json 200 (case blob s of
                       None \<Rightarrow> createDefaultData now
                     | Some v \<Rightarrow> if truthy v then v else createDefaultData now))"
  by (simp add: netlify_handler_def split: option.splits)

lemma fetch_fst:
  "fst (fetch ep m b now s) =
     (if online s
      then Some (fst (case ep of
                        Supabase \<Rightarrow> supabase_handler m b now (s\<lparr>requests := requests s @ [(ep, m)]\<rparr>)
                      | Netlify \<Rightarrow> netlify_handler m b now (s\<lparr>requests := requests s @ [(ep, m)]\<rparr>)))
      else None)"
  by (simp add: fetch_def Let_def split_beta)

lemma netlify_load_indep:
  assumes "online s' = online s" and "blob s' = blob s" and "blob_error s' = blob_error s"
  shows "fst (tryLoadFrom Netlify now s') = fst (tryLoadFrom Netlify now s)"
proof -
  have "fst (fetch Netlify GET None now s') = fst (fetch Netlify GET None now s)"
    by (simp add: fetch_fst netlify_get assms)
  then show ?thesis by (simp only: tryLoadFrom_parts(2))
qed

lemma supabase_get_blob:
  "blob (snd (supabase_handler GET b now s)) = blob s"
  "blob_error (snd (supabase_handler GET b now s)) = blob_error s"
  by (simp_all add: supabase_handler_def split: option.splits)

lemma supabase_load_blob:
  "blob (snd (tryLoadFrom Supabase now s)) = blob s"
  "blob_error (snd (tryLoadFrom Supabase now s)) = blob_error s"
  by (simp_all add: tryLoadFrom_parts(1) fetch_def Let_def split_beta supabase_get_blob)

lemma load_local_empty:
  assumes "dbLoad s = Inr None"
  shows "load_local now s =
           (None, s\<lparr>heap := (heap s)(next_ref s := createDefaultData now),
                     next_ref := Suc (next_ref s), memoryCache := Some (next_ref s),
                     idb := Some (createDefaultData now)\<rparr>)"
  using assms
  by (simp add: load_local_def dbLoad_def dbInit_def dbSave_def alloc_def split: if_splits)

text \<open>
  C6: when neither remote tier yields a document and IndexedDB answers that it holds
  none, startup succeeds, \<^verbatim>\<open>getData()\<close> then returns the default document, whose
  \<^verbatim>\<open>classes\<close> is the empty map, whose \<^verbatim>\<open>teachers\<close> maps \<^verbatim>\<open>teacher\<close> to \<^verbatim>\<open>starboard\<close> and
  which has \<^verbatim>\<open>settings\<close>, and IndexedDB holds that document.
\<close>

theorem default_bootstrap:
  assumes "fst (tryLoadFromSupabase now s) = None"
    and "fst (tryLoadFromNetlify now s) = None"
    and "dbLoad s = Inr None"
  shows "fst (initializeDataStorage now s) = None \<and>
         read_after_startup now now' s = createDefaultData now \<and>
         idb (snd (initializeDataStorage now s)) = Some (createDefaultData now) \<and>
         own (createDefaultData now) ''classes'' = Some (JObj []) \<and>
         own (createDefaultData now) ''teachers'' = Some (JObj [(''teacher'', JStr ''starboard'')]) \<and>
         own (createDefaultData now) ''settings'' \<noteq> None"
proof -
  define s1 where "s1 = snd (tryLoadFrom Supabase now s)"
  define s2 where "s2 = snd (tryLoadFrom Netlify now s1)"
  have l1: "tryLoadFrom Supabase now s = (None, s1)"
    using assms(1) by (simp add: s1_def tryLoadFromSupabase_def prod_eq_iff)
  have "fst (tryLoadFrom Netlify now s1) = fst (tryLoadFrom Netlify now s)"
    by (rule netlify_load_indep) (simp_all add: s1_def supabase_load_blob)
  then have l2: "tryLoadFrom Netlify now s1 = (None, s2)"
    using assms(2) by (simp add: s2_def tryLoadFromNetlify_def prod_eq_iff)
  have "dbLoad s2 = dbLoad s"
    by (simp add: dbLoad_def s2_def s1_def)
  then have db: "dbLoad s2 = Inr None"
    using assms(3) by simp
  have i: "initializeDataStorage now s = load_local now s2"
    by (simp add: initializeDataStorage_def tryLoadFromSupabase_def tryLoadFromNetlify_def l1 l2)
  show ?thesis
    unfolding read_after_startup_def i load_local_empty[OF db]
    by (simp add: getData_def own_def createDefaultData_def)
qed

theorem default_bootstrap_witness:
  "fst (tryLoadFromSupabase ''t1'' (fresh_state\<lparr>online := False\<rparr>)) = None \<and>
   fst (tryLoadFromNetlify ''t1'' (fresh_state\<lparr>online := False\<rparr>)) = None \<and>
   dbLoad (fresh_state\<lparr>online := False\<rparr>) = Inr None \<and>
   read_after_startup ''t1'' ''t2'' (fresh_state\<lparr>online := False\<rparr>) = createDefaultData ''t1'' \<and>
   idb (snd (initializeDataStorage ''t1'' (fresh_state\<lparr>online := False\<rparr>)))
     = Some (createDefaultData ''t1'')"
proof -
  have a: "fst (tryLoadFromSupabase ''t1'' (fresh_state\<lparr>online := False\<rparr>)) = None"
    by (simp add: fresh_state_def tryLoadFromSupabase_def tryLoadFrom_def fetch_def Let_def)
  have b: "fst (tryLoadFromNetlify ''t1'' (fresh_state\<lparr>online := False\<rparr>)) = None"
    by (simp add: fresh_state_def tryLoadFromNetlify_def tryLoadFrom_def fetch_def Let_def)
  have c: "dbLoad (fresh_state\<lparr>online := False\<rparr>) = Inr None"
    by (simp add: fresh_state_def dbLoad_def)
  show ?thesis using a b c default_bootstrap[OF a b c, of "''t2''"] by blast
qed

text \<open>
  C9: \<^verbatim>\<open>getData()\<close> returns the reference held in \<^verbatim>\<open>this.memoryCache\<close>. What a caller
  writes into the object it received is what the next \<^verbatim>\<open>getData()\<close> returns, with no
  \<^verbatim>\<open>saveData\<close> in between and no change to any storage tier. \<^verbatim>\<open>modifyStars\<close> works
  that way: when the document it has changed is one \<^verbatim>\<open>saveData\<close> refuses, the change
  is in the authoritative copy all the same.
\<close>

theorem getData_returns_alias:
  "memoryCache (snd (getData now s)) = Some (fst (getData now s)) \<and>
   getData now' (caller_writes (fst (getData now s)) v (snd (getData now s))) =
     (fst (getData now s), caller_writes (fst (getData now s)) v (snd (getData now s))) \<and>
   authoritative (caller_writes (fst (getData now s)) v (snd (getData now s))) = Some v \<and>
   tiers (caller_writes (fst (getData now s)) v (snd (getData now s))) = tiers (snd (getData now s)) \<and>
   (student_at (heap (snd (getData now s)) (fst (getData now s))) currentClass studentId
        = Inr (Some student) \<and>
    truthy student \<and> get_prop student ''stars'' = Inr (Some (JNum stars)) \<and>
    validateDataStructure
       (set_student_stars (heap (snd (getData now s)) (fst (getData now s))) currentClass studentId
          (JNum (max 0 (stars + amount)))) \<noteq> Inr True
    \<longrightarrow> modifyStars currentClass studentId amount now s =
          (None, caller_writes (fst (getData now s))
                   (set_student_stars (heap (snd (getData now s)) (fst (getData now s)))
                      currentClass studentId (JNum (max 0 (stars + amount))))
                   (snd (getData now s))))"
proof -
  obtain r s1 where g: "getData now s = (r, s1)" by (cases "getData now s")
  have mc: "memoryCache s1 = Some r"
    using g by (auto simp: getData_def alloc_def Let_def dbSave_def split: option.splits if_splits)
  have a: "getData now' (caller_writes r v s1) = (r, caller_writes r v s1)"
    using mc by (simp add: getData_def caller_writes_def)
  have b: "authoritative (caller_writes r v s1) = Some v"
    using mc by (simp add: authoritative_def caller_writes_def)
  have c: "tiers (caller_writes r v s1) = tiers s1"
    by (simp add: tiers_def caller_writes_def)
  have d: "modifyStars currentClass studentId amount now s =
          (None, caller_writes r
                   (set_student_stars (heap s1 r) currentClass studentId (JNum (max 0 (stars + amount))))
                   s1)"
    if "student_at (heap s1 r) currentClass studentId = Inr (Some student)"
      and "truthy student" and "get_prop student ''stars'' = Inr (Some (JNum stars))"
      and "validateDataStructure
             (set_student_stars (heap s1 r) currentClass studentId (JNum (max 0 (stars + amount))))
           \<noteq> Inr True"
    using that g
    by (simp add: modifyStars_def Let_def caller_writes_def saveData_rejects)
  show ?thesis using mc a b c d by (simp add: g)
qed

theorem getData_returns_alias_witness:
  "authoritative (caller_writes (fst (getData ''t1'' (adopted doc_math))) doc_art
                    (snd (getData ''t1'' (adopted doc_math)))) = Some doc_art \<and>
   modifyStars ''Math'' ''s1'' (- 5) ''t1'' (adopted doc_no_teachers) =
     (None, caller_writes 0
        (set_student_stars doc_no_teachers ''Math'' ''s1'' (JNum 0)) (adopted doc_no_teachers))"
proof -
  have g: "getData ''t1'' (adopted doc_no_teachers) = (0, adopted doc_no_teachers)"
    by (simp add: getData_def adopted_def holding_def)
  have h: "heap (adopted doc_no_teachers) 0 = doc_no_teachers"
    by (simp add: adopted_def holding_def)
  have p: "student_at doc_no_teachers ''Math'' ''s1''
             = Inr (Some (JObj [(''name'', JStr ''Ada''), (''stars'', JNum 3)]))"
    by (simp add: student_at_def doc_no_teachers_def)
  have q: "validateDataStructure (set_student_stars doc_no_teachers ''Math'' ''s1'' (JNum (max 0 (3 + (- 5)))))
             \<noteq> Inr True"
    by (simp add: set_student_stars_def doc_no_teachers_def validateDataStructure_def
          requiredProps_def)
  show ?thesis
    using getData_returns_alias[of "''t1''" "adopted doc_math" "''t2''" doc_art]
      getData_returns_alias[of "''t1''" "adopted doc_no_teachers" "''t2''" doc_art "''Math''" "''s1''"
        "JObj [(''name'', JStr ''Ada''), (''stars'', JNum 3)]" 3 "- 5"]
      p q
    by (simp add: g h)
qed

lemma lightweight_thin: "lightweight_ok doc_classes_only"
  by (simp add: lightweight_ok_def doc_classes_only_def)

lemma validate_thin: "validateDataStructure doc_classes_only = Inr False"
  by (simp add: doc_classes_only_def validateDataStructure_def requiredProps_def)

text \<open>
  C8, as stated: a document that fails the validator is never persisted to any tier and
  never adopted into memory. A document with \<^verbatim>\<open>classes\<close> only fails the validator; a
  \<^verbatim>\<open>PUT\<close> of it to either function is stored with status 200, and when IndexedDB holds
  it and the remote tiers cannot be reached, startup adopts it. And a document whose
  student has \<^verbatim>\<open>Infinity\<close> stars passes the validator; \<^verbatim>\<open>saveData\<close> returns true for it,
  and what it has adopted and written to localStorage is the JSON copy, whose stars are
  \<^verbatim>\<open>null\<close> and which fails the validator.
\<close>

theorem validator_gate_counterexample:
  "validateDataStructure doc_classes_only = Inr False \<and>
   netlify_handler PUT (Some (Parses doc_classes_only)) ''t1'' fresh_state
     = ((200, JObj [(''ok'', JBool True)]), fresh_state\<lparr>blob := Some doc_classes_only\<rparr>) \<and>
   supabase_handler PUT (Some (Parses doc_classes_only)) ''t1'' fresh_state
     = ((200, JObj [(''success'', JBool True)]), fresh_state\<lparr>sb_row := Some doc_classes_only\<rparr>) \<and>
   authoritative (snd (initializeDataStorage ''t1''
       (fresh_state\<lparr>online := False, idb := Some doc_classes_only\<rparr>))) = Some doc_classes_only \<and>
   validateDataStructure (heap (holding doc_infinity) 0) = Inr True \<and>
   fst (saveData ''t1'' 0 (holding doc_infinity)) \<and>
   authoritative (snd (saveData ''t1'' 0 (holding doc_infinity)))
     = Some (json_clone (set_prop doc_infinity ''metadata'' (stamp ''t1'' (JNum 1)))) \<and>
   ls (snd (saveData ''t1'' 0 (holding doc_infinity)))
     = Some (Parses (json_clone (set_prop doc_infinity ''metadata'' (stamp ''t1'' (JNum 1))))) \<and>
   validateDataStructure (json_clone (set_prop doc_infinity ''metadata'' (stamp ''t1'' (JNum 1))))
     = Inr False \<and>
   \<not> memory_valid (snd (saveData ''t1'' 0 (holding doc_infinity)))"
proof -
  have a: "netlify_handler PUT (Some (Parses doc_classes_only)) ''t1'' fresh_state
     = ((200, JObj [(''ok'', JBool True)]), fresh_state\<lparr>blob := Some doc_classes_only\<rparr>)"
    by (simp add: netlify_handler_def lightweight_thin json_def)
       (simp add: fresh_state_def doc_classes_only_def)
  have b: "supabase_handler PUT (Some (Parses doc_classes_only)) ''t1'' fresh_state
     = ((200, JObj [(''success'', JBool True)]), fresh_state\<lparr>sb_row := Some doc_classes_only\<rparr>)"
    by (simp add: supabase_handler_def lightweight_thin json_def)
       (simp add: fresh_state_def doc_classes_only_def)
  have c: "authoritative (snd (initializeDataStorage ''t1''
       (fresh_state\<lparr>online := False, idb := Some doc_classes_only\<rparr>))) = Some doc_classes_only"
    by (simp add: initializeDataStorage_def tryLoadFromSupabase_def tryLoadFromNetlify_def
          tryLoadFrom_def fetch_def Let_def load_local_def dbInit_def dbLoad_def alloc_def
          authoritative_def fresh_state_def)
       (simp add: doc_classes_only_def)
  have h: "heap (holding doc_infinity) 0 = doc_infinity"
    by (simp add: holding_def)
  have v: "validateDataStructure (heap (holding doc_infinity) 0) = Inr True"
    unfolding h
    by (simp add: doc_infinity_def validateDataStructure_def requiredProps_def class_ok_def
          student_ok_def)
  have m: "next_backupCount (heap (holding doc_infinity) 0) = Inr (JNum 1)"
    unfolding h by (simp add: next_backupCount_def prior_backupCount_def doc_infinity_def)
  note sv = saveData_valid[OF v m, of "''t1''"]
  have u: "idb_up (holding doc_infinity)" "ls_writable (holding doc_infinity)"
    by (simp_all add: holding_def fresh_state_def)
  have t: "fst (saveData ''t1'' 0 (holding doc_infinity))"
    using sv(4) u by simp
  have e: "authoritative (snd (saveData ''t1'' 0 (holding doc_infinity)))
     = Some (json_clone (set_prop doc_infinity ''metadata'' (stamp ''t1'' (JNum 1))))"
    using sv(1,2) by (simp add: authoritative_def h)
  have l: "ls (snd (saveData ''t1'' 0 (holding doc_infinity)))
     = Some (Parses (json_clone (set_prop doc_infinity ''metadata'' (stamp ''t1'' (JNum 1)))))"
    using sv(6) t by (simp add: h)
  have f: "validateDataStructure
             (json_clone (set_prop doc_infinity ''metadata'' (stamp ''t1'' (JNum 1)))) = Inr False"
    by (simp add: doc_infinity_def stamp_def validateDataStructure_def requiredProps_def
          class_ok_def student_ok_def)
  have n: "\<not> memory_valid (snd (saveData ''t1'' 0 (holding doc_infinity)))"
    by (simp add: memory_valid_def e f)
  show ?thesis using validate_thin a b c v t e l f n by simp
qed

lemma saveData_keeps_valid:
  assumes "memory_valid s" and "idb_valid s"
    and "validateDataStructure (heap s r) = Inr True \<longrightarrow>
         validateDataStructure (json_clone (heap s r)) = Inr True"
  shows "memory_valid (snd (saveData now r s)) \<and> idb_valid (snd (saveData now r s))"
proof (cases "validateDataStructure (heap s r) = Inr True")
  case False
  then show ?thesis using assms by (simp add: saveData_rejects)
next
  case True
  show ?thesis
  proof (cases "next_backupCount (heap s r)")
    case (Inl e)
    then show ?thesis using assms by (simp add: saveData_unstampable)
  next
    case (Inr bc)
    define st where "st = set_prop (heap s r) ''metadata'' (stamp now bc)"
    define s3 where "s3 = s\<lparr>heap := (heap s)(r := st, next_ref s := json_clone st),
                next_ref := Suc (next_ref s), memoryCache := Some (next_ref s)\<rparr>"
    have e: "saveData now r s = write_tiers (next_ref s) now s3"
      unfolding s3_def st_def by (rule saveData_valid_eq[OF True Inr])
    have v: "validateDataStructure (json_clone st) = Inr True"
      using True assms(3) by (simp add: st_def json_clone_set_prop validate_set_metadata)
    have m: "memory_valid (snd (write_tiers (next_ref s) now s3))"
      using v by (simp add: memory_valid_def authoritative_def s3_def)
    have "idb (snd (write_tiers (next_ref s) now s3)) = idb s \<or>
          idb (snd (write_tiers (next_ref s) now s3)) = Some (json_clone st)"
      using write_tiers_idb[of "next_ref s" now s3] by (simp add: s3_def)
    then have i: "idb_valid (snd (write_tiers (next_ref s) now s3))"
      using assms(2) v by (auto simp: idb_valid_def)
    show ?thesis unfolding e using m i by simp
  qed
qed

lemma getDataFromLocalStorage_valid:
  "validateDataStructure (getDataFromLocalStorage now s) = Inr True"
  by (simp add: getDataFromLocalStorage_def split: option.splits json_text.splits sum.splits bool.splits)

lemma adopt_and_mirror_keeps_valid:
  assumes "validateDataStructure d = Inr True" and "idb_valid s"
  shows "memory_valid (snd (adopt_and_mirror d s)) \<and> idb_valid (snd (adopt_and_mirror d s))"
  using assms
  by (auto simp: adopt_and_mirror_def alloc_def Let_def dbInit_def dbSave_def ls_setItem_def
        memory_valid_def idb_valid_def authoritative_def)

lemma load_local_keeps_valid:
  assumes "memory_valid s" and "idb_valid s"
  shows "memory_valid (snd (load_local now s)) \<and> idb_valid (snd (load_local now s))"
  using assms
  by (auto simp: load_local_def alloc_def Let_def dbInit_def dbLoad_def dbSave_def
        memory_valid_def idb_valid_def authoritative_def split: option.splits if_splits)

lemma tryLoadFrom_keeps_valid:
  "memory_valid (snd (tryLoadFrom ep now s)) = memory_valid s"
  "idb_valid (snd (tryLoadFrom ep now s)) = idb_valid s"
  by (simp_all add: memory_valid_def idb_valid_def authoritative_def)

lemma initializeDataStorage_keeps_valid:
  assumes "memory_valid s" and "idb_valid s"
  shows "memory_valid (snd (initializeDataStorage now s)) \<and>
         idb_valid (snd (initializeDataStorage now s))"
proof -
  define p1 where "p1 = tryLoadFrom Supabase now s"
  define a1 where "a1 = (case fst p1 of Some d \<Rightarrow> adopt_and_mirror d (snd p1) | None \<Rightarrow> (False, snd p1))"
  define p2 where "p2 = tryLoadFrom Netlify now (snd a1)"
  define a2 where "a2 = (case fst p2 of Some d \<Rightarrow> adopt_and_mirror d (snd p2) | None \<Rightarrow> (False, snd p2))"
  have v1: "memory_valid (snd p1) \<and> idb_valid (snd p1)"
    using assms by (simp add: p1_def tryLoadFrom_keeps_valid)
  have va1: "memory_valid (snd a1) \<and> idb_valid (snd a1)"
  proof (cases "fst p1")
    case None
    then show ?thesis using v1 by (simp add: a1_def)
  next
    case (Some d)
    then have "validateDataStructure d = Inr True"
      using tryLoadFrom_valid[of Supabase now s d] by (simp add: p1_def)
    then show ?thesis using Some v1 adopt_and_mirror_keeps_valid by (simp add: a1_def)
  qed
  have v2: "memory_valid (snd p2) \<and> idb_valid (snd p2)"
    using va1 by (simp add: p2_def tryLoadFrom_keeps_valid)
  have va2: "memory_valid (snd a2) \<and> idb_valid (snd a2)"
  proof (cases "fst p2")
    case None
    then show ?thesis using v2 by (simp add: a2_def)
  next
    case (Some d)
    then have "validateDataStructure d = Inr True"
      using tryLoadFrom_valid[of Netlify now "snd a1" d] by (simp add: p2_def)
    then show ?thesis using Some v2 adopt_and_mirror_keeps_valid by (simp add: a2_def)
  qed
  have e: "initializeDataStorage now s =
      (if fst a1 then (None, snd a1) else if fst a2 then (None, snd a2) else load_local now (snd a2))"
    unfolding a2_def p2_def a1_def p1_def initializeDataStorage_def tryLoadFromSupabase_def
      tryLoadFromNetlify_def
    by (simp add: split_beta bool.case_eq_if cong: option.case_cong)
  show ?thesis
    unfolding e using va1 va2 load_local_keeps_valid[of "snd a2" now] by simp
qed

lemma load_local_existing:
  assumes "idb_up s" and "idb s = Some v" and "truthy v"
  shows "load_local now s =
           (None, s\<lparr>heap := (heap s)(next_ref s := v), next_ref := Suc (next_ref s),
                     memoryCache := Some (next_ref s)\<rparr>)"
  using assms by (simp add: load_local_def dbLoad_def dbInit_def alloc_def)

lemma startup_adopts_stored:
  assumes "fst (tryLoadFromSupabase now s) = None"
    and "fst (tryLoadFromNetlify now s) = None"
    and "idb_up s" and "idb s = Some v" and "truthy v"
  shows "fst (initializeDataStorage now s) = None \<and>
         authoritative (snd (initializeDataStorage now s)) = Some v"
proof -
  define s1 where "s1 = snd (tryLoadFrom Supabase now s)"
  define s2 where "s2 = snd (tryLoadFrom Netlify now s1)"
  have l1: "tryLoadFrom Supabase now s = (None, s1)"
    using assms(1) by (simp add: s1_def tryLoadFromSupabase_def prod_eq_iff)
  have "fst (tryLoadFrom Netlify now s1) = fst (tryLoadFrom Netlify now s)"
    by (rule netlify_load_indep) (simp_all add: s1_def supabase_load_blob)
  then have l2: "tryLoadFrom Netlify now s1 = (None, s2)"
    using assms(2) by (simp add: s2_def tryLoadFromNetlify_def prod_eq_iff)
  have db: "idb_up s2" "idb s2 = Some v"
    using assms(3,4) by (simp_all add: s2_def s1_def)
  have i: "initializeDataStorage now s = load_local now s2"
    by (simp add: initializeDataStorage_def tryLoadFromSupabase_def tryLoadFromNetlify_def l1 l2)
  show ?thesis
    unfolding i load_local_existing[OF db assms(5)]
    by (simp add: authoritative_def)
qed

text \<open>
  C8, amended: the validator gates the client's save path and its loads from the two
  remote tiers and from localStorage. \<^verbatim>\<open>saveData\<close> changes nothing for a document the
  validator does not accept; a remote load yields only documents it accepts, and so
  does the read of localStorage. As long as memory and IndexedDB hold no invalid
  document, startup keeps it so, and so does \<^verbatim>\<open>saveData\<close> of a document whose JSON copy
  the validator accepts whenever it accepts the document, as is the case for a document
  that holds no \<^verbatim>\<open>NaN\<close> and no infinity. The load from IndexedDB validates nothing: when
  neither remote tier yields a document, startup adopts whatever truthy value IndexedDB
  holds. And each \<^verbatim>\<open>PUT\<close> handler stores the JSON copy of any body that is an object,
  not an array, with a truthy \<^verbatim>\<open>classes\<close>, when its store is configured and working,
  and nothing otherwise.
\<close>

theorem validator_gate_amended:
  "(memory_valid s \<and> idb_valid s \<longrightarrow>
      memory_valid (snd (initializeDataStorage now s)) \<and>
      idb_valid (snd (initializeDataStorage now s))) \<and>
   (memory_valid s \<and> idb_valid s \<and>
    (validateDataStructure (heap s r) = Inr True \<longrightarrow>
       validateDataStructure (json_clone (heap s r)) = Inr True) \<longrightarrow>
      memory_valid (snd (saveData now r s)) \<and> idb_valid (snd (saveData now r s))) \<and>
   (memory_valid s \<and> idb_valid s \<and> json_clone (heap s r) = heap s r \<longrightarrow>
      memory_valid (snd (saveData now r s)) \<and> idb_valid (snd (saveData now r s))) \<and>
   (fst (tryLoadFrom ep now s) = Some d \<longrightarrow> validateDataStructure d = Inr True) \<and>
   validateDataStructure (getDataFromLocalStorage now s) = Inr True \<and>
   (validateDataStructure (heap s r) \<noteq> Inr True \<longrightarrow> saveData now r s = (False, s)) \<and>
   (fst (tryLoadFromSupabase now s) = None \<and> fst (tryLoadFromNetlify now s) = None \<and>
    idb_up s \<and> idb s = Some v \<and> truthy v \<longrightarrow>
      fst (initializeDataStorage now s) = None \<and>
      authoritative (snd (initializeDataStorage now s)) = Some v) \<and>
   snd (netlify_handler PUT (Some (Parses p)) now s) =
     (if accepted_body p \<and> \<not> blob_error s then s\<lparr>blob := Some (json_clone p)\<rparr> else s) \<and>
   snd (supabase_handler PUT (Some (Parses p)) now s) =
     (if sb_configured s \<and> accepted_body p \<and> \<not> sb_error s
      then s\<lparr>sb_row := Some (json_clone p)\<rparr> else s)"
proof -
  have a: "memory_valid s \<and> idb_valid s \<longrightarrow>
      memory_valid (snd (initializeDataStorage now s)) \<and>
      idb_valid (snd (initializeDataStorage now s))"
    using initializeDataStorage_keeps_valid[of s now] by blast
  have a2: "memory_valid s \<and> idb_valid s \<and>
    (validateDataStructure (heap s r) = Inr True \<longrightarrow>
       validateDataStructure (json_clone (heap s r)) = Inr True) \<longrightarrow>
      memory_valid (snd (saveData now r s)) \<and> idb_valid (snd (saveData now r s))"
    using saveData_keeps_valid[of s r now] by blast
  have a3: "memory_valid s \<and> idb_valid s \<and> json_clone (heap s r) = heap s r \<longrightarrow>
      memory_valid (snd (saveData now r s)) \<and> idb_valid (snd (saveData now r s))"
    using saveData_keeps_valid[of s r now] by simp
  have b: "fst (tryLoadFrom ep now s) = Some d \<longrightarrow> validateDataStructure d = Inr True"
    using tryLoadFrom_valid by blast
  have c: "validateDataStructure (heap s r) \<noteq> Inr True \<longrightarrow> saveData now r s = (False, s)"
    using saveData_rejects by blast
  have g: "fst (tryLoadFromSupabase now s) = None \<and> fst (tryLoadFromNetlify now s) = None \<and>
    idb_up s \<and> idb s = Some v \<and> truthy v \<longrightarrow>
      fst (initializeDataStorage now s) = None \<and>
      authoritative (snd (initializeDataStorage now s)) = Some v"
    using startup_adopts_stored[of now s v] by blast
  have e: "snd (netlify_handler PUT (Some (Parses p)) now s) =
     (if accepted_body p \<and> \<not> blob_error s then s\<lparr>blob := Some (json_clone p)\<rparr> else s)"
    by (simp add: netlify_handler_def lightweight_accepted)
  have f: "snd (supabase_handler PUT (Some (Parses p)) now s) =
     (if sb_configured s \<and> accepted_body p \<and> \<not> sb_error s
      then s\<lparr>sb_row := Some (json_clone p)\<rparr> else s)"
    by (simp add: supabase_handler_def lightweight_accepted)
  show ?thesis using a a2 a3 b c g e f getDataFromLocalStorage_valid[of now s] by blast
qed

theorem validator_gate_amended_witness:
  "memory_valid fresh_state \<and> idb_valid fresh_state \<and>
   memory_valid (snd (initializeDataStorage ''t1'' fresh_state)) \<and>
   idb_valid (snd (initializeDataStorage ''t1'' fresh_state)) \<and>
   memory_valid (holding doc_math) \<and> idb_valid (holding doc_math) \<and>
   json_clone (heap (holding doc_math) 0) = heap (holding doc_math) 0 \<and>
   validateDataStructure (heap (holding doc_math) 0) = Inr True \<and>
   memory_valid (snd (saveData ''t1'' 0 (holding doc_math))) \<and>
   idb_valid (snd (saveData ''t1'' 0 (holding doc_math))) \<and>
   validateDataStructure (heap (holding doc_classes_only) 0) \<noteq> Inr True \<and>
   snd (saveData ''t1'' 0 (holding doc_classes_only)) = holding doc_classes_only \<and>
   accepted_body doc_classes_only \<and> \<not> accepted_body (JObj []) \<and>
   snd (netlify_handler PUT (Some (Parses (JObj []))) ''t1'' fresh_state) = fresh_state"
proof -
  have m: "memory_valid fresh_state"
    by (simp add: memory_valid_def authoritative_def fresh_state_def)
  have i: "idb_valid fresh_state"
    by (simp add: idb_valid_def fresh_state_def)
  have m2: "memory_valid (holding doc_math)"
    by (simp add: memory_valid_def authoritative_def holding_def fresh_state_def)
  have i2: "idb_valid (holding doc_math)"
    by (simp add: idb_valid_def holding_def fresh_state_def)
  have j: "json_clone (heap (holding doc_math) 0) = heap (holding doc_math) 0"
    by (simp add: holding_def doc_math_def)
  have v: "validateDataStructure (heap (holding doc_math) 0) = Inr True"
    by (simp add: holding_def doc_math_def validateDataStructure_def requiredProps_def
          class_ok_def student_ok_def)
  have h: "validateDataStructure (heap (holding doc_classes_only) 0) \<noteq> Inr True"
    by (simp add: holding_def validate_thin)
  have k: "accepted_body doc_classes_only" "\<not> accepted_body (JObj [])"
    by (simp_all add: accepted_body_def doc_classes_only_def)
  note g1 = validator_gate_amended[of fresh_state "''t1''" 0 Supabase JNull JNull "JObj []"]
  note g2 = validator_gate_amended[of "holding doc_math" "''t1''" 0 Supabase JNull JNull "JObj []"]
  note g3 = validator_gate_amended[of "holding doc_classes_only" "''t1''" 0 Supabase JNull JNull
      "JObj []"]
  have r1: "memory_valid (snd (initializeDataStorage ''t1'' fresh_state)) \<and>
   idb_valid (snd (initializeDataStorage ''t1'' fresh_state))"
    using g1 m i by blast
  have r2: "memory_valid (snd (saveData ''t1'' 0 (holding doc_math))) \<and>
   idb_valid (snd (saveData ''t1'' 0 (holding doc_math)))"
    using g2 m2 i2 j by blast
  have r3: "snd (saveData ''t1'' 0 (holding doc_classes_only)) = holding doc_classes_only"
    using g3 h by simp
  have r4: "snd (netlify_handler PUT (Some (Parses (JObj []))) ''t1'' fresh_state) = fresh_state"
    using g1 k(2) by simp
  show ?thesis using m i m2 i2 j v h k r1 r2 r3 r4 by blast
qed

subsection \<open>Stars\<close>

lemma stars_of_set_student_stars:
  assumes "map_of kv ''classes'' = Some (JObj classes)"
    and "map_of classes currentClass = Some (JObj classData)"
    and "map_of classData ''students'' = Some (JObj students)"
    and "map_of students studentId = Some (JObj student)"
  shows "stars_of (set_student_stars (JObj kv) currentClass studentId v) currentClass studentId
           = Some v"
  using assms
  by (simp add: stars_of_def set_student_stars_def student_at_def own_def
        map_of_modify_own map_of_assign_own)

lemma stars_of_set_metadata:
  "stars_of (set_prop d ''metadata'' md) currentClass studentId = stars_of d currentClass studentId"
  by (cases d) (simp_all add: stars_of_def student_at_def map_of_assign_own)

lemma stars_of_copy:
  assumes "map_of kv ''classes'' = Some (JObj classes)"
    and "map_of classes currentClass = Some (JObj classData)"
    and "map_of classData ''students'' = Some (JObj students)"
    and "map_of students studentId = Some (JObj student)"
  shows "stars_of (json_clone (set_prop (set_student_stars (JObj kv) currentClass studentId (JNum n))
                     ''metadata'' md)) currentClass studentId
           = Some (JNum n)"
  using assms
  by (simp add: stars_of_def set_student_stars_def student_at_def own_def
        map_of_modify_own map_of_assign_own map_of_map_snd)

lemma saveData_cases:
  "snd (saveData now r s) = s \<or>
   (\<exists>bc. heap (snd (saveData now r s)) =
            (heap s)(r := set_prop (heap s r) ''metadata'' (stamp now bc),
                     next_ref s := json_clone (set_prop (heap s r) ''metadata'' (stamp now bc))) \<and>
          memoryCache (snd (saveData now r s)) = Some (next_ref s))"
proof (cases "validateDataStructure (heap s r) = Inr True")
  case False
  then show ?thesis by (simp add: saveData_rejects)
next
  case True
  show ?thesis
  proof (cases "next_backupCount (heap s r)")
    case (Inl e)
    then show ?thesis by (simp add: saveData_unstampable)
  next
    case (Inr bc)
    show ?thesis using saveData_valid(1,2)[OF True Inr, of now] by blast
  qed
qed

lemma getData_memoryCache: "memoryCache (snd (getData now s)) = Some (fst (getData now s))"
  by (auto simp: getData_def alloc_def Let_def dbSave_def split: option.splits)

text \<open>
  C7: for a student of the current class whose \<^verbatim>\<open>stars\<close> is the number \<open>stars\<close>,
  \<^verbatim>\<open>modifyStars(studentId, amount)\<close> completes and leaves \<open>max 0 (stars + amount)\<close> as
  the student's stars, in the object \<^verbatim>\<open>getData()\<close> had returned and in the authoritative
  copy, whether or not \<^verbatim>\<open>saveData\<close> accepted the document. A decrement of magnitude
  \<open>d\<close> is the amount \<open>- d\<close>: the result is \<open>max 0 (stars - d)\<close>, which is 0 when
  \<open>d > stars\<close>, and never negative.
\<close>

theorem modifyStars_floor:
  assumes "heap (snd (getData now s)) (fst (getData now s)) = JObj kv"
    and "map_of kv ''classes'' = Some (JObj classes)"
    and "map_of classes currentClass = Some (JObj classData)"
    and "map_of classData ''students'' = Some (JObj students)"
    and "map_of students studentId = Some (JObj student)"
    and "map_of student ''stars'' = Some (JNum stars)"
  shows "fst (modifyStars currentClass studentId (- d) now s) = None \<and>
         (\<exists>doc. authoritative (snd (modifyStars currentClass studentId (- d) now s)) = Some doc \<and>
                stars_of doc currentClass studentId = Some (JNum (max 0 (stars - d)))) \<and>
         stars_of (heap (snd (modifyStars currentClass studentId (- d) now s)) (fst (getData now s)))
            currentClass studentId = Some (JNum (max 0 (stars - d))) \<and>
         0 \<le> max 0 (stars - d) \<and>
         (stars < d \<longrightarrow> max 0 (stars - d) = 0)"
proof -
  obtain r s1 where g: "getData now s = (r, s1)" by (cases "getData now s")
  have mc: "memoryCache s1 = Some r" using getData_memoryCache[of now s] g by simp
  have h: "heap s1 r = JObj kv" using assms(1) g by simp
  define v where "v = JNum (max 0 (stars - d))"
  define doc where "doc = set_student_stars (JObj kv) currentClass studentId v"
  define s2 where "s2 = s1\<lparr>heap := (heap s1)(r := doc)\<rparr>"
  have at: "student_at (JObj kv) currentClass studentId = Inr (Some (JObj student))"
    using assms(2-5) by (simp add: student_at_def)
  have m: "modifyStars currentClass studentId (- d) now s = (None, snd (saveData now r s2))"
    using g h at assms(6)
    by (simp add: modifyStars_def Let_def s2_def doc_def v_def)
  have sd: "stars_of doc currentClass studentId = Some v"
    unfolding doc_def using assms(2-5) by (rule stars_of_set_student_stars)
  have sc: "stars_of (json_clone (set_prop doc ''metadata'' md)) currentClass studentId = Some v"
    for md
    unfolding doc_def v_def using assms(2-5) by (rule stars_of_copy)
  have h2: "heap s2 r = doc" and mc2: "memoryCache s2 = Some r"
    using mc by (simp_all add: s2_def)
  have "(\<exists>doc'. authoritative (snd (saveData now r s2)) = Some doc' \<and>
                stars_of doc' currentClass studentId = Some v) \<and>
        stars_of (heap (snd (saveData now r s2)) r) currentClass studentId = Some v"
    using saveData_cases[of now r s2]
  proof
    assume "snd (saveData now r s2) = s2"
    then show ?thesis using h2 mc2 sd by (simp add: authoritative_def)
  next
    assume "\<exists>bc. heap (snd (saveData now r s2)) =
            (heap s2)(r := set_prop (heap s2 r) ''metadata'' (stamp now bc),
                      next_ref s2 := json_clone (set_prop (heap s2 r) ''metadata'' (stamp now bc))) \<and>
          memoryCache (snd (saveData now r s2)) = Some (next_ref s2)"
    then obtain bc where
      hp: "heap (snd (saveData now r s2)) =
            (heap s2)(r := set_prop doc ''metadata'' (stamp now bc),
                      next_ref s2 := json_clone (set_prop doc ''metadata'' (stamp now bc)))"
      and mp: "memoryCache (snd (saveData now r s2)) = Some (next_ref s2)"
      using h2 by auto
    show ?thesis using hp mp sd sc by (simp add: authoritative_def stars_of_set_metadata)
  qed
  then show ?thesis using m g by (simp add: v_def)
qed

theorem modifyStars_floor_witness:
  "heap (snd (getData ''t1'' (adopted doc_math))) (fst (getData ''t1'' (adopted doc_math)))
     = doc_math \<and>
   fst (modifyStars ''Math'' ''s1'' (- 5) ''t1'' (adopted doc_math)) = None \<and>
   stars_of (heap (snd (modifyStars ''Math'' ''s1'' (- 5) ''t1'' (adopted doc_math))) 0)
      ''Math'' ''s1'' = Some (JNum 0)"
proof -
  have g: "getData ''t1'' (adopted doc_math) = (0, adopted doc_math)"
    by (simp add: getData_def adopted_def holding_def)
  have h: "heap (snd (getData ''t1'' (adopted doc_math))) (fst (getData ''t1'' (adopted doc_math)))
     = JObj [(''classes'',
              JObj [(''Math'',
                 JObj [(''students'',
                    JObj [(''s1'', JObj [(''name'', JStr ''Ada''), (''stars'', JNum 3)])])])]),
           (''teachers'', JObj [(''teacher'', JStr ''starboard'')]),
           (''settings'', JObj [])]"
    by (simp add: g) (simp add: adopted_def holding_def doc_math_def)
  have r: "fst (modifyStars ''Math'' ''s1'' (- 5) ''t1'' (adopted doc_math)) = None \<and>
   stars_of (heap (snd (modifyStars ''Math'' ''s1'' (- 5) ''t1'' (adopted doc_math))) 0)
      ''Math'' ''s1'' = Some (JNum 0)"
    using modifyStars_floor[OF h, of
        "[(''Math'', JObj [(''students'',
            JObj [(''s1'', JObj [(''name'', JStr ''Ada''), (''stars'', JNum 3)])])])]"
        "''Math''"
        "[(''students'', JObj [(''s1'', JObj [(''name'', JStr ''Ada''), (''stars'', JNum 3)])])]"
        "[(''s1'', JObj [(''name'', JStr ''Ada''), (''stars'', JNum 3)])]"
        "''s1''" "[(''name'', JStr ''Ada''), (''stars'', JNum 3)]" 3 5]
    by (simp add: g)
  show ?thesis using h r by (simp add: doc_math_def)
qed

end
